theory Spec2Isabelle
  imports Main "HOL-Library.Sublist"
begin

section \<open>Strings\<close>

text \<open>
  A JavaScript string is modelled as a \<^typ>\<open>string\<close>, one \<^typ>\<open>char\<close> per code unit
  (code units above 255 are outside the model). The string methods that
  \<^verbatim>\<open>concat.js\<close> calls are written out as the runtime computes them.
\<close>

definition startsWith :: "string \<Rightarrow> string \<Rightarrow> bool" where
  \<comment> \<open>\<^verbatim>\<open>s.startsWith(p)\<close>: false when \<open>p\<close> is longer than \<open>s\<close>, else compares the first
      \<open>p.length\<close> code units.\<close>
  "startsWith s p = (length p \<le> length s \<and> take (length p) s = p)"

definition endsWith :: "string \<Rightarrow> string \<Rightarrow> bool" where
  \<comment> \<open>\<^verbatim>\<open>s.endsWith(p)\<close>: \<open>start = s.length - p.length\<close>; false when \<open>start < 0\<close>.\<close>
  "endsWith s p = (length p \<le> length s \<and> drop (length s - length p) s = p)"

fun str_includes :: "string \<Rightarrow> string \<Rightarrow> bool" where
  \<comment> \<open>\<^verbatim>\<open>s.includes(p)\<close>: the search tries every start position from the left.\<close>
  "str_includes [] p = startsWith [] p"
| "str_includes (c # s) p = (if startsWith (c # s) p then True else str_includes s p)"

definition substring :: "string \<Rightarrow> nat \<Rightarrow> string" where
  \<comment> \<open>\<^verbatim>\<open>s.substring(n)\<close> with one argument.\<close>
  "substring s n = drop n s"

fun some :: "('a \<Rightarrow> bool) \<Rightarrow> 'a list \<Rightarrow> bool" where
  \<comment> \<open>\<^verbatim>\<open>Array.prototype.some\<close>: stops at the first element the callback accepts.\<close>
  "some p [] = False"
| "some p (x # xs) = (if p x then True else some p xs)"

definition isWhiteSpace :: "char \<Rightarrow> bool" where
  \<comment> \<open>The white space and line terminator code units below 256: tab, line feed, vertical
      tab, form feed, carriage return, space, no-break space. \<^verbatim>\<open>trim\<close> and the regular
      expression class \<^verbatim>\<open>\s\<close> use the same set.\<close>
  "isWhiteSpace c =
     (c \<in> set [CHR 0x09, CHR 0x0A, CHR 0x0B, CHR 0x0C, CHR 0x0D, CHR 0x20, CHR 0xA0])"

definition trim :: "string \<Rightarrow> string" where
  \<comment> \<open>\<^verbatim>\<open>s.trim()\<close>\<close>
  "trim s = rev (dropWhile isWhiteSpace (rev (dropWhile isWhiteSpace s)))"

fun split_from :: "char \<Rightarrow> string \<Rightarrow> string \<Rightarrow> string list" where
  "split_from sep cur [] = [cur]"
| "split_from sep cur (c # s) =
     (if c = sep then cur # split_from sep [] s else split_from sep (cur @ [c]) s)"

definition split :: "string \<Rightarrow> char \<Rightarrow> string list" where
  \<comment> \<open>\<^verbatim>\<open>s.split(sep)\<close> for a separator of one code unit; the empty string gives one
      empty piece.\<close>
  "split s sep = split_from sep [] s"

fun join :: "string list \<Rightarrow> string \<Rightarrow> string" where
  \<comment> \<open>\<^verbatim>\<open>xs.join(sep)\<close> on an array of strings.\<close>
  "join [] sep = []"
| "join [x] sep = x"
| "join (x # y # ys) sep = x @ sep @ join (y # ys) sep"

definition slice :: "'a list \<Rightarrow> nat \<Rightarrow> nat \<Rightarrow> 'a list" where
  \<comment> \<open>\<^verbatim>\<open>xs.slice(start, end)\<close> for non-negative arguments: copies the indices from
      \<open>start\<close> up to, not including, \<open>min(end, xs.length)\<close>.\<close>
  "slice xs start end = map (\<lambda>k. xs ! k) [start ..< min end (length xs)]"

definition slice_from :: "'a list \<Rightarrow> nat \<Rightarrow> 'a list" where
  \<comment> \<open>\<^verbatim>\<open>xs.slice(start)\<close>\<close>
  "slice_from xs start = slice xs start (length xs)"

fun find_elem :: "('a \<Rightarrow> bool) \<Rightarrow> 'a list \<Rightarrow> 'a option" where
  \<comment> \<open>\<^verbatim>\<open>Array.prototype.find\<close>; \<open>None\<close> is \<^verbatim>\<open>undefined\<close>.\<close>
  "find_elem p [] = None"
| "find_elem p (x # xs) = (if p x then Some x else find_elem p xs)"

fun add_all :: "'a list \<Rightarrow> 'a list \<Rightarrow> 'a list" where
  "add_all seen [] = seen"
| "add_all seen (x # xs) = add_all (if x \<in> set seen then seen else seen @ [x]) xs"

definition unique :: "'a list \<Rightarrow> 'a list" where
  \<comment> \<open>\<^verbatim>\<open>[...new Set(xs)]\<close>: a set keeps insertion order, so the first occurrence of
      each value stays.\<close>
  "unique xs = add_all [] xs"

function show_nat :: "nat \<Rightarrow> string" where
  \<comment> \<open>A non-negative integer in a template literal: its decimal digits.\<close>
  "show_nat n =
     (if n < 10 then [''0123456789'' ! n]
      else show_nat (n div 10) @ [''0123456789'' ! (n mod 10)])"
  by pat_completeness auto
termination
  by (relation "measure (\<lambda>n. n)") auto

declare show_nat.simps [simp del]

definition show_int :: "int \<Rightarrow> string" where
  \<comment> \<open>An integer below \<open>10^21\<close> in magnitude in a template literal; from there on
      JavaScript prints an exponent, which is not modelled.\<close>
  "show_int i = (if i < 0 then ''-'' @ show_nat (nat (- i)) else show_nat (nat i))"

section \<open>Exceptions and JSON values\<close>

datatype error =
    SyntaxError            \<comment> \<open>\<^verbatim>\<open>JSON.parse\<close> on malformed text\<close>
  | TypeError              \<comment> \<open>a property of \<^verbatim>\<open>null\<close> or \<^verbatim>\<open>undefined\<close>, a call of a
                               non-function, a non-string path argument\<close>
  | ENOENT | ENOTDIR | EISDIR   \<comment> \<open>file system errors\<close>
  | Failure string         \<comment> \<open>a rejection by an external collaborator (browser, child
                               process, clipboard)\<close>

text \<open>
  What \<^verbatim>\<open>JSON.parse\<close> returns. Numbers are integers below \<open>10^21\<close> in magnitude (line
  numbers, in the linter's output), printed in decimal; an object is the list of its own
  properties, keys distinct.
\<close>

datatype json =
    JNull | JBool bool | JNum int | JStr string | JArr "json list" | JObj "(string \<times> json) list"

fun get_prop :: "json \<Rightarrow> string \<Rightarrow> error + json option" where
  \<comment> \<open>\<^verbatim>\<open>v.key\<close> for the keys the source reads (\<^verbatim>\<open>name\<close>, \<^verbatim>\<open>filePath\<close>, \<^verbatim>\<open>messages\<close>,
      \<^verbatim>\<open>line\<close>, \<^verbatim>\<open>ruleId\<close>, \<^verbatim>\<open>message\<close>): throws on \<^verbatim>\<open>null\<close>, is \<^verbatim>\<open>undefined\<close>
      (\<open>None\<close>) on the other primitives and on arrays.\<close>
  "get_prop JNull key = Inl TypeError"
| "get_prop (JObj props) key = Inr (map_of props key)"
| "get_prop v key = Inr None"

fun to_text :: "json \<Rightarrow> error + string"
and elements_text :: "json list \<Rightarrow> error + string list" where
  \<comment> \<open>A parsed value inside a template literal. An array prints its elements separated by
      commas, \<^verbatim>\<open>null\<close> elements as nothing; an object prints as \<^verbatim>\<open>[object Object]\<close>
      unless it has a property \<^verbatim>\<open>toString\<close> of its own, which is not callable.\<close>
  "to_text JNull = Inr ''null''"
| "to_text (JBool b) = Inr (if b then ''true'' else ''false'')"
| "to_text (JNum n) = Inr (show_int n)"
| "to_text (JStr s) = Inr s"
| "to_text (JArr xs) =
     (case elements_text xs of Inl e \<Rightarrow> Inl e | Inr ts \<Rightarrow> Inr (join ts '',''))"
| "to_text (JObj props) =
     (if ''toString'' \<in> set (map fst props) then Inl TypeError else Inr ''[object Object]'')"
| "elements_text [] = Inr []"
| "elements_text (x # xs) =
     (case (if x = JNull then Inr [] else to_text x) of
        Inl e \<Rightarrow> Inl e
      | Inr t \<Rightarrow> (case elements_text xs of Inl e \<Rightarrow> Inl e | Inr ts \<Rightarrow> Inr (t # ts)))"

definition template_text :: "json option \<Rightarrow> error + string" where
  \<comment> \<open>\<^verbatim>\<open>${v}\<close> where \<open>v\<close> may be \<^verbatim>\<open>undefined\<close>.\<close>
  "template_text v = (case v of None \<Rightarrow> Inr ''undefined'' | Some j \<Rightarrow> to_text j)"

section \<open>Paths\<close>

definition basename :: "string \<Rightarrow> string" where
  \<comment> \<open>\<^verbatim>\<open>path.basename\<close> (POSIX): scanning from the right, trailing slashes are skipped,
      then everything up to the next slash is the name.\<close>
  "basename p =
     rev (takeWhile (\<lambda>c. c \<noteq> CHR ''/'') (dropWhile (\<lambda>c. c = CHR ''/'') (rev p)))"

definition path_parts :: "string \<Rightarrow> string list" where
  \<comment> \<open>The segments of a path that normalisation looks at: empty segments and \<^verbatim>\<open>.\<close> are
      skipped.\<close>
  "path_parts p = filter (\<lambda>seg. seg \<noteq> [] \<and> seg \<noteq> ''.'') (split p CHR ''/'')"

fun normalize_parts :: "bool \<Rightarrow> string list \<Rightarrow> string list \<Rightarrow> string list" where
  \<comment> \<open>\<^verbatim>\<open>normalizeString\<close> of Node's \<^verbatim>\<open>path\<close> module, on segments; \<open>res\<close> is the result so
      far, last segment first. A \<^verbatim>\<open>..\<close> removes the segment before it; with nothing to
      remove it is kept only when the path may climb above its start.\<close>
  "normalize_parts allowAboveRoot res [] = rev res"
| "normalize_parts allowAboveRoot res (seg # rest) =
     (if seg = ''..'' then
        (case res of
           [] \<Rightarrow> normalize_parts allowAboveRoot (if allowAboveRoot then [''..''] else []) rest
         | prev # below \<Rightarrow>
             if prev = ''..''
             then normalize_parts allowAboveRoot
                    (if allowAboveRoot then ''..'' # res else res) rest
             else normalize_parts allowAboveRoot below rest)
      else normalize_parts allowAboveRoot (seg # res) rest)"

definition normalize_path :: "string \<Rightarrow> string" where
  \<comment> \<open>\<^verbatim>\<open>path.normalize\<close> (POSIX)\<close>
  "normalize_path p =
     (if length p = 0 then ''.''
      else
        let isAbsolute = startsWith p ''/'';
            trailingSeparator = endsWith p ''/'';
            q = join (normalize_parts (\<not> isAbsolute) [] (path_parts p)) ''/''
        in if length q = 0
           then (if isAbsolute then ''/'' else if trailingSeparator then ''./'' else ''.'')
           else (if isAbsolute then ''/'' else [])
                @ q @ (if trailingSeparator then ''/'' else []))"

definition path_join :: "string list \<Rightarrow> string" where
  \<comment> \<open>\<^verbatim>\<open>path.join(...args)\<close>: the non-empty arguments, joined by slashes, normalised.\<close>
  "path_join args =
     (let given = filter (\<lambda>a. length a > 0) args
      in if given = [] then ''.'' else normalize_path (join given ''/''))"

definition resolve_parts :: "string \<Rightarrow> string \<Rightarrow> string list" where
  \<comment> \<open>\<^verbatim>\<open>path.resolve(p)\<close> as a list of segments: a relative path starts from the working
      directory \<open>cwd\<close> (an absolute path).\<close>
  "resolve_parts cwd p =
     normalize_parts False [] (path_parts (if startsWith p ''/'' then p else cwd @ ''/'' @ p))"

fun drop_common :: "string list \<Rightarrow> string list \<Rightarrow> string list \<times> string list" where
  "drop_common (a # f) (b # t) = (if a = b then drop_common f t else (a # f, b # t))"
| "drop_common f t = (f, t)"

definition relative :: "string \<Rightarrow> string \<Rightarrow> string \<Rightarrow> string" where
  \<comment> \<open>\<^verbatim>\<open>path.relative(from, to)\<close> (POSIX): both resolved, the common leading segments
      dropped, one \<^verbatim>\<open>..\<close> for each segment left of \<open>from\<close>, then what is left of \<open>to\<close>.\<close>
  "relative cwd from to =
     (if from = to then []
      else
        let f = resolve_parts cwd from; t = resolve_parts cwd to
        in if f = t then []
           else case drop_common f t of
                  (f', t') \<Rightarrow> join (map (\<lambda>_. ''..'') f' @ t') ''/'')"

section \<open>File system\<close>

text \<open>
  The file system is a tree from the root directory. A directory lists its entries in the
  order \<^verbatim>\<open>readdirSync\<close> reports them, under distinct names that are not empty, \<^verbatim>\<open>.\<close> or
  \<^verbatim>\<open>..\<close> and hold no slash. \<open>Broken\<close> is an entry that is listed but cannot be followed
  (a dangling link): \<^verbatim>\<open>statSync\<close> and reads of it throw. A path given to one of the
  \<^verbatim>\<open>fs\<close> calls is walked through the tree piece by piece, as the operating system does;
  the functions of \<^verbatim>\<open>path\<close> above work on the text of a path alone. Where a file system
  lists a new name among the old ones is its own choice: here a new file comes last.
\<close>

datatype fsnode = File string | Dir "(string \<times> fsnode) list" | Broken

fun lookup_node :: "fsnode \<Rightarrow> string list \<Rightarrow> error + fsnode"
and lookup_in :: "(string \<times> fsnode) list \<Rightarrow> string \<Rightarrow> string list \<Rightarrow> error + fsnode" where
  \<comment> \<open>The node under a list of entry names, none of them empty, \<^verbatim>\<open>.\<close> or \<^verbatim>\<open>..\<close>.\<close>
  "lookup_node n [] = Inr n"
| "lookup_node (Dir entries) (seg # rest) = lookup_in entries seg rest"
| "lookup_node (File _) (seg # rest) = Inl ENOTDIR"
| "lookup_node Broken (seg # rest) = Inl ENOENT"
| "lookup_in [] seg rest = Inl ENOENT"
| "lookup_in ((name, child) # entries) seg rest =
     (if name = seg then lookup_node child rest else lookup_in entries seg rest)"

fun realpath :: "fsnode \<Rightarrow> string list \<Rightarrow> string list \<Rightarrow> error + string list" where
  \<comment> \<open>How the operating system walks a path, one piece between slashes after the other,
      from the directory \<open>here\<close>: every piece, also an empty one, \<^verbatim>\<open>.\<close> or \<^verbatim>\<open>..\<close>, is
      looked up in a directory that must exist. The result names the entry the path ends
      at, which need not exist.\<close>
  "realpath root here [] = Inr here"
| "realpath root here (seg # rest) =
     (case lookup_node root here of
        Inl e \<Rightarrow> Inl e
      | Inr (File _) \<Rightarrow> Inl ENOTDIR
      | Inr Broken \<Rightarrow> Inl ENOENT
      | Inr (Dir _) \<Rightarrow>
          if seg = [] \<or> seg = ''.'' then realpath root here rest
          else if seg = ''..'' then realpath root (butlast here) rest
          else realpath root (here @ [seg]) rest)"

fun write_node :: "fsnode \<Rightarrow> string list \<Rightarrow> string \<Rightarrow> error + fsnode"
and write_in :: "(string \<times> fsnode) list \<Rightarrow> string \<Rightarrow> string list \<Rightarrow> string
                  \<Rightarrow> error + (string \<times> fsnode) list" where
  "write_node (Dir entries) [] data = Inl EISDIR"
| "write_node (File _) [] data = Inr (File data)"
| "write_node Broken [] data = Inr (File data)"
| "write_node (Dir entries) (seg # rest) data =
     (case write_in entries seg rest data of
        Inl e \<Rightarrow> Inl e | Inr entries' \<Rightarrow> Inr (Dir entries'))"
| "write_node (File _) (seg # rest) data = Inl ENOTDIR"
| "write_node Broken (seg # rest) data = Inl ENOENT"
| "write_in [] seg rest data = (if rest = [] then Inr [(seg, File data)] else Inl ENOENT)"
| "write_in ((name, child) # entries) seg rest data =
     (if name = seg then
        (case write_node child rest data of
           Inl e \<Rightarrow> Inl e | Inr child' \<Rightarrow> Inr ((name, child') # entries))
      else
        (case write_in entries seg rest data of
           Inl e \<Rightarrow> Inl e | Inr entries' \<Rightarrow> Inr ((name, child) # entries')))"

section \<open>Pattern matcher\<close>

definition excluded_by :: "string \<Rightarrow> string \<Rightarrow> bool" where
  \<comment> \<open>The callback given to \<^verbatim>\<open>excludeFiles.some\<close> in \<^verbatim>\<open>shouldIncludeFile\<close>.\<close>
  "excluded_by filePath pattern =
     (let fileName = basename filePath in
      if startsWith pattern ''*.'' then
        (let extension = substring pattern 1 in endsWith fileName extension)
      else if startsWith pattern ''/'' then
        str_includes filePath (substring pattern 1)
      else fileName = pattern)"

definition shouldIncludeFile :: "string list \<Rightarrow> string \<Rightarrow> bool" where
  \<comment> \<open>\<^verbatim>\<open>excludeFiles\<close> is a module-level constant of the source whose value depends on
      \<^verbatim>\<open>.gitignore\<close>; here it is the first argument.\<close>
  "shouldIncludeFile excludeFiles filePath = (\<not> some (excluded_by filePath) excludeFiles)"

subsection \<open>The matcher as the specification words it\<close>

datatype rule_kind = Extension string | PathFragment string | ExactName string

definition classify :: "string \<Rightarrow> rule_kind" where
  "classify r =
     (if prefix ''*.'' r then Extension (tl r)
      else if prefix ''/'' r then PathFragment (tl r)
      else ExactName r)"

fun kind_matches :: "rule_kind \<Rightarrow> string \<Rightarrow> bool" where
  "kind_matches (Extension sfx) P = suffix sfx (basename P)"
| "kind_matches (PathFragment frag) P = sublist frag P"
| "kind_matches (ExactName n) P = (basename P = n)"

definition rule_matches :: "string \<Rightarrow> string \<Rightarrow> bool" where
  "rule_matches r P = kind_matches (classify r) P"

definition segments :: "string \<Rightarrow> string list" where
  \<comment> \<open>The non-empty pieces of a path between slashes: what a segment boundary means.\<close>
  "segments p = filter (\<lambda>seg. seg \<noteq> []) (split p CHR ''/'')"

section \<open>The world of a run\<close>

text \<open>
  \<open>world\<close> holds what the script cannot change: its two directories, the runtime's JSON
  parser, and what each external collaborator answers when it is called (\<open>Some e\<close> or
  \<open>Inl e\<close>: the call throws or its promise rejects with \<open>e\<close>). \<open>state\<close> holds what the
  script changes: the files, whether the browser it launched is still open, the console,
  the clipboard.
\<close>

datatype log_entry = ConsoleError string error | ConsoleLog string

record world =
  cwd :: string                                  \<comment> \<open>\<^verbatim>\<open>process.cwd()\<close>\<close>
  dirname :: string                              \<comment> \<open>\<^verbatim>\<open>__dirname\<close>\<close>
  JSON_parse :: "string \<Rightarrow> error + json"
  spawn :: "string \<Rightarrow> string list \<Rightarrow> error + string \<times> string"
      \<comment> \<open>a child process: rejected, or closed with its standard output and error text\<close>
  puppeteer_launch :: "error option"
  browser_newPage :: "error option"
  page_evaluateOnNewDocument :: "error option"
  page_goto :: "string \<Rightarrow> error option"
  page_waitForSelector :: "string \<Rightarrow> error option"
  capturedErrors :: "error + string list"        \<comment> \<open>\<^verbatim>\<open>window.capturedErrors || []\<close>\<close>
  errorOverlay :: "error + string option"
      \<comment> \<open>the \<^verbatim>\<open>innerText\<close> of \<^verbatim>\<open>.react-error-overlay\<close>, when the page has one\<close>
  clipboard_write :: "string \<Rightarrow> error option"
  browser_close :: "error option"

record state =
  files :: fsnode
  browser_open :: bool
  console :: "log_entry list"
  clipboard :: "string option"

type_synonym 'a prog = "state \<Rightarrow> (error + 'a) \<times> state"

definition returnP :: "'a \<Rightarrow> 'a prog" where
  "returnP x = (\<lambda>s. (Inr x, s))"

definition bind :: "'a prog \<Rightarrow> ('a \<Rightarrow> 'b prog) \<Rightarrow> 'b prog" where
  \<comment> \<open>One statement after another: an exception ends the sequence where it is thrown.\<close>
  "bind m f = (\<lambda>s. case m s of (Inl e, s') \<Rightarrow> (Inl e, s') | (Inr x, s') \<Rightarrow> f x s')"

definition tryCatch :: "'a prog \<Rightarrow> (error \<Rightarrow> 'a prog) \<Rightarrow> 'a prog" where
  "tryCatch m h = (\<lambda>s. case m s of (Inl e, s') \<Rightarrow> h e s' | (Inr x, s') \<Rightarrow> (Inr x, s'))"

definition liftE :: "(state \<Rightarrow> error + 'a) \<Rightarrow> 'a prog" where
  \<comment> \<open>A computation that reads the state and may throw.\<close>
  "liftE f = (\<lambda>s. (f s, s))"

definition external :: "error option \<Rightarrow> unit prog" where
  \<comment> \<open>Awaiting a collaborator whose answer carries no value.\<close>
  "external answer = (\<lambda>s. case answer of Some e \<Rightarrow> (Inl e, s) | None \<Rightarrow> (Inr (), s))"

definition console_error :: "string \<Rightarrow> error \<Rightarrow> unit prog" where
  "console_error text e = (\<lambda>s. (Inr (), s\<lparr>console := console s @ [ConsoleError text e]\<rparr>))"

definition console_log :: "string \<Rightarrow> unit prog" where
  "console_log text = (\<lambda>s. (Inr (), s\<lparr>console := console s @ [ConsoleLog text]\<rparr>))"

fun mapE :: "('a \<Rightarrow> error + 'b) \<Rightarrow> 'a list \<Rightarrow> error + 'b list" where
  \<comment> \<open>\<^verbatim>\<open>xs.map(f)\<close> with a callback that may throw: the first exception ends the map.\<close>
  "mapE f [] = Inr []"
| "mapE f (x # xs) =
     (case f x of
        Inl e \<Rightarrow> Inl e
      | Inr y \<Rightarrow> (case mapE f xs of Inl e \<Rightarrow> Inl e | Inr ys \<Rightarrow> Inr (y # ys)))"

subsection \<open>File system calls\<close>

definition locate :: "world \<Rightarrow> state \<Rightarrow> string \<Rightarrow> error + string list" where
  \<comment> \<open>The entry a path given to an \<^verbatim>\<open>fs\<close> call ends at: an absolute path is walked from
      the root, a relative one from the working directory; the empty path names nothing.\<close>
  "locate w s p =
     (if length p = 0 then Inl ENOENT
      else realpath (files s)
             (if startsWith p ''/'' then [] else resolve_parts (cwd w) ''.'')
             (split p CHR ''/''))"

definition existsSync :: "world \<Rightarrow> string \<Rightarrow> state \<Rightarrow> bool" where
  "existsSync w p s =
     (case locate w s p of
        Inl e \<Rightarrow> False
      | Inr here \<Rightarrow>
          (case lookup_node (files s) here of
             Inr (File _) \<Rightarrow> True | Inr (Dir _) \<Rightarrow> True | _ \<Rightarrow> False))"

definition readFileSync :: "world \<Rightarrow> string \<Rightarrow> state \<Rightarrow> error + string" where
  "readFileSync w p s =
     (case locate w s p of
        Inl e \<Rightarrow> Inl e
      | Inr here \<Rightarrow>
          (case lookup_node (files s) here of
             Inl e \<Rightarrow> Inl e
           | Inr Broken \<Rightarrow> Inl ENOENT
           | Inr (Dir _) \<Rightarrow> Inl EISDIR
           | Inr (File content) \<Rightarrow> Inr content))"

definition writeFileSync :: "world \<Rightarrow> string \<Rightarrow> string \<Rightarrow> unit prog" where
  "writeFileSync w p data =
     (\<lambda>s. case locate w s p of
             Inl e \<Rightarrow> (Inl e, s)
           | Inr here \<Rightarrow>
               (case write_node (files s) here data of
                  Inl e \<Rightarrow> (Inl e, s)
                | Inr root' \<Rightarrow> (Inr (), s\<lparr>files := root'\<rparr>)))"

section \<open>Exclusion list\<close>

definition readGitignore :: "world \<Rightarrow> string \<Rightarrow> state \<Rightarrow> error + string list" where
  "readGitignore w gitignorePath s =
     (if existsSync w gitignorePath s then
        (case readFileSync w gitignorePath s of
           Inl e \<Rightarrow> Inl e
         | Inr text \<Rightarrow> Inr (filter (\<lambda>line. line \<noteq> []) (split text CHR ''\<newline>'')))
      else Inr [])"

definition builtinExcludes :: "string list" where
  "builtinExcludes =
     [''concat.js'', ''package-lock.json'', ''/node_modules'', ''/dist'', ''/build'', ''/git'',
      ''/firebase'', ''/vscode'', ''/coverage'', ''*.jpg'', ''*.jpeg'', ''*.png'', ''*.gif'',
      ''*.bmp'', ''*.svg'', ''*.ico'', ''*.tif'', ''*.tiff'', ''*.psd'', ''*.ai'', ''*.eps'',
      ''*.indd'', ''*.pdf'', ''*.doc'', ''*.docx'', ''*.xls'', ''*.xlsx'', ''*.ppt'', ''*.pptx'',
      ''*.odt'', ''*.ods'', ''*.odp'', ''*.mp3'', ''*.wav'', ''*.aac'', ''*.m4a'', ''*.mp4'',
      ''*.avi'', ''*.mov'', ''*.wmv'', ''*.flv'', ''*.zip'', ''*.rar'', ''*.7z'', ''*.tar'',
      ''*.gz'', ''*.bz2'', ''*.log'', ''*.d.ts'', ''*.md'']"

definition excludeFiles :: "world \<Rightarrow> state \<Rightarrow> error + string list" where
  \<comment> \<open>The module-level constant, computed when the script is loaded.\<close>
  "excludeFiles w s =
     (case readGitignore w ''.gitignore'' s of
        Inl e \<Rightarrow> Inl e | Inr ignored \<Rightarrow> Inr (ignored @ builtinExcludes))"

section \<open>Tree enumerator\<close>

fun getFilePaths_in ::
  "string list \<Rightarrow> string \<Rightarrow> (string \<times> fsnode) list \<Rightarrow> string list \<Rightarrow> error + string list"
where
  \<comment> \<open>The \<^verbatim>\<open>forEach\<close> of \<^verbatim>\<open>getFilePaths\<close> over the listing of the directory \<open>dirPath\<close>.
      The entry's node answers \<^verbatim>\<open>statSync(filePath)\<close>, and the listing of a
      subdirectory answers the \<^verbatim>\<open>readdirSync\<close> of the recursive call.\<close>
  "getFilePaths_in excl dirPath [] arrayOfFiles = Inr arrayOfFiles"
| "getFilePaths_in excl dirPath ((file, Broken) # rest) arrayOfFiles = Inl ENOENT"
| "getFilePaths_in excl dirPath ((file, Dir sub) # rest) arrayOfFiles =
     (if path_join [dirPath, file] \<noteq> dirPath then
        (case getFilePaths_in excl (path_join [dirPath, file]) sub arrayOfFiles of
           Inl e \<Rightarrow> Inl e
         | Inr arrayOfFiles' \<Rightarrow> getFilePaths_in excl dirPath rest arrayOfFiles')
      else
        getFilePaths_in excl dirPath rest
          (if shouldIncludeFile excl (path_join [dirPath, file])
           then arrayOfFiles @ [path_join [dirPath, file]] else arrayOfFiles))"
| "getFilePaths_in excl dirPath ((file, File content) # rest) arrayOfFiles =
     getFilePaths_in excl dirPath rest
       (if shouldIncludeFile excl (path_join [dirPath, file])
        then arrayOfFiles @ [path_join [dirPath, file]] else arrayOfFiles)"

definition getFilePaths :: "world \<Rightarrow> string list \<Rightarrow> string \<Rightarrow> state \<Rightarrow> error + string list" where
  "getFilePaths w excl dirPath s =
     (case locate w s dirPath of
        Inl e \<Rightarrow> Inl e
      | Inr here \<Rightarrow>
          (case lookup_node (files s) here of
             Inl e \<Rightarrow> Inl e
           | Inr Broken \<Rightarrow> Inl ENOENT
           | Inr (File _) \<Rightarrow> Inl ENOTDIR
           | Inr (Dir entries) \<Rightarrow> getFilePaths_in excl dirPath entries []))"

section \<open>Content renderer\<close>

definition getFileContentWithStructure :: "world \<Rightarrow> state \<Rightarrow> string \<Rightarrow> error + string" where
  "getFileContentWithStructure w s filePath =
     (let relativeFilePath = relative (cwd w) (dirname w) filePath in
      if relativeFilePath = ''output.md'' then Inr []
      else
        case readFileSync w filePath s of
          Inl e \<Rightarrow> Inl e
        | Inr text \<Rightarrow>
            (let content = trim text in
             if length content = 0 then Inr []
             else Inr (''['' @ relativeFilePath @ '']\<newline>'' @ content @ ''\<newline>...\<newline>'')))"

section \<open>Diagnostics collectors\<close>

definition summarizeRuntimeError :: "string \<Rightarrow> error + string" where
  \<comment> \<open>The callback of \<^verbatim>\<open>runtimeErrors.map\<close> in the main function.\<close>
  "summarizeRuntimeError err =
     (let lines = split err CHR ''\<newline>'' in
      case lines of
        [] \<Rightarrow> Inl TypeError
      | line0 # _ \<Rightarrow>
          (let firstLine = trim line0;
               fileInfo = find_elem (\<lambda>line. str_includes line ''at '') (slice_from lines 1)
           in Inr (''- '' @ firstLine @ ''\<newline>  ''
                   @ (case fileInfo of None \<Rightarrow> ''undefined'' | Some line \<Rightarrow> line))))"

definition buildErrorLines :: "string option \<Rightarrow> string list" where
  \<comment> \<open>The function evaluated in the page for the build errors.\<close>
  "buildErrorLines overlay =
     (case overlay of Some innerText \<Rightarrow> split (trim innerText) CHR ''\<newline>'' | None \<Rightarrow> [])"

fun eslintMessages :: "string \<Rightarrow> json list \<Rightarrow> string list \<Rightarrow> error option \<times> string list" where
  \<comment> \<open>\<^verbatim>\<open>file.messages.forEach\<close>: the lines pushed so far, and the exception that ended
      the loop, if any.\<close>
  "eslintMessages relativePath [] eslintErrors = (None, eslintErrors)"
| "eslintMessages relativePath (message # rest) eslintErrors =
     (case get_prop message ''line'' of
        Inl e \<Rightarrow> (Some e, eslintErrors)
      | Inr line \<Rightarrow>
     (case get_prop message ''ruleId'' of
        Inl e \<Rightarrow> (Some e, eslintErrors)
      | Inr ruleId \<Rightarrow>
     (case get_prop message ''message'' of
        Inl e \<Rightarrow> (Some e, eslintErrors)
      | Inr text \<Rightarrow>
     (case template_text line of
        Inl e \<Rightarrow> (Some e, eslintErrors)
      | Inr lineText \<Rightarrow>
     (case template_text text of
        Inl e \<Rightarrow> (Some e, eslintErrors)
      | Inr textText \<Rightarrow>
     (case template_text ruleId of
        Inl e \<Rightarrow> (Some e, eslintErrors)
      | Inr ruleText \<Rightarrow>
          eslintMessages relativePath rest
            (eslintErrors @ [''['' @ relativePath @ ''] Line '' @ lineText @ '': '' @ textText
                             @ '' ('' @ ruleText @ '')''])))))))"

fun eslintFiles :: "world \<Rightarrow> json list \<Rightarrow> string list \<Rightarrow> error option \<times> string list" where
  \<comment> \<open>\<^verbatim>\<open>parsedOutput.forEach\<close>. \<^verbatim>\<open>path.relative\<close> throws on a path that is no string, and
      \<^verbatim>\<open>forEach\<close> exists on arrays only.\<close>
  "eslintFiles w [] eslintErrors = (None, eslintErrors)"
| "eslintFiles w (file # rest) eslintErrors =
     (case get_prop file ''filePath'' of
        Inl e \<Rightarrow> (Some e, eslintErrors)
      | Inr (Some (JStr filePath)) \<Rightarrow>
          (let relativePath = relative (cwd w) (dirname w) filePath in
           case get_prop file ''messages'' of
             Inl e \<Rightarrow> (Some e, eslintErrors)
           | Inr (Some (JArr messages)) \<Rightarrow>
               (case eslintMessages relativePath messages eslintErrors of
                  (Some e, eslintErrors') \<Rightarrow> (Some e, eslintErrors')
                | (None, eslintErrors') \<Rightarrow> eslintFiles w rest eslintErrors')
           | Inr _ \<Rightarrow> (Some TypeError, eslintErrors))
      | Inr _ \<Rightarrow> (Some TypeError, eslintErrors))"

definition parseESLintOutput :: "world \<Rightarrow> string \<Rightarrow> string list prog" where
  \<comment> \<open>The \<^verbatim>\<open>try\<close> block ends at the first exception; the \<^verbatim>\<open>catch\<close> logs it, and the
      function returns what was pushed until then.\<close>
  "parseESLintOutput w output =
     (\<lambda>s. case (case JSON_parse w output of
                   Inl e \<Rightarrow> (Some e, [])
                 | Inr (JArr parsedOutput) \<Rightarrow> eslintFiles w parsedOutput []
                 | Inr _ \<Rightarrow> (Some TypeError, [])) of
             (Some e, eslintErrors) \<Rightarrow>
               (Inr eslintErrors,
                s\<lparr>console := console s @ [ConsoleError ''Failed to parse ESLint output:'' e]\<rparr>)
           | (None, eslintErrors) \<Rightarrow> (Inr eslintErrors, s))"

definition summarizeTypescriptErrors :: "string \<Rightarrow> string list" where
  "summarizeTypescriptErrors output =
     (let lines = split (trim output) CHR ''\<newline>'' in
      filter (\<lambda>line. str_includes line ''error TS'') lines)"

definition runCommand :: "world \<Rightarrow> string \<Rightarrow> string list \<Rightarrow> (string \<times> string) prog" where
  \<comment> \<open>Resolves with \<^verbatim>\<open>{ output, errorOutput }\<close> when the child closes, rejects on its
      \<^verbatim>\<open>error\<close> event.\<close>
  "runCommand w command args = liftE (\<lambda>s. spawn w command args)"

section \<open>Report assembler\<close>

definition getProjectName :: "world \<Rightarrow> state \<Rightarrow> error + json option" where
  \<comment> \<open>Returns the \<^verbatim>\<open>name\<close> property, whatever its value; \<open>None\<close> is \<^verbatim>\<open>undefined\<close>.\<close>
  "getProjectName w s =
     (let packageJsonPath = path_join [dirname w, ''package.json''] in
      if existsSync w packageJsonPath s then
        (case readFileSync w packageJsonPath s of
           Inl e \<Rightarrow> Inl e
         | Inr text \<Rightarrow>
             (case JSON_parse w text of
                Inl e \<Rightarrow> Inl e
              | Inr packageJson \<Rightarrow> get_prop packageJson ''name''))
      else Inr (Some (JStr ''Unknown Project'')))"

record report =
  summary_text :: string
  project_text :: string
  code_section :: string
  runtime_section :: string
  build_section :: string
  eslint_section :: string
  typescript_section :: string

definition render :: "report \<Rightarrow> string" where
  \<comment> \<open>The fixed text of the template literal in \<^verbatim>\<open>generateOutput\<close> around its seven
      holes.\<close>
  "render r =
     ''# Overview\<newline>''
     @ ''This file provides a summary of the codebase, including code files. Please provide the updated and\<newline>''
     @ ''fixed code for each distinct file that requires changes to fix intentionally introduced errors\<newline>''
     @ ''(runtime, build, ESLint, and TypeScript), along with concise corrections. Do not include files\<newline>''
     @ ''that do not require any changes.\<newline>''
     @ ''\<newline>## Summary\<newline>'' @ summary_text r
     @ ''\<newline>\<newline># Project: '' @ project_text r
     @ ''\<newline>\<newline>## Code Files\<newline>\<newline>'' @ code_section r
     @ ''\<newline>\<newline>## Runtime Errors\<newline>\<newline>'' @ runtime_section r
     @ ''\<newline>\<newline>## Build Errors\<newline>\<newline>'' @ build_section r
     @ ''\<newline>\<newline>## ESLint Errors\<newline>\<newline>'' @ eslint_section r
     @ ''\<newline>\<newline>## TypeScript Errors\<newline>\<newline>'' @ typescript_section r
     @ ''\<newline>''"

definition generateOutput ::
  "world \<Rightarrow> string list \<Rightarrow> string list \<Rightarrow> string list \<Rightarrow> string list \<Rightarrow> string list \<Rightarrow> string
     \<Rightarrow> state \<Rightarrow> error + string" where
  \<comment> \<open>The holes of the template, in the order they are evaluated.\<close>
  "generateOutput w codeFiles runtimeErrors buildErrors eslintErrors typescriptErrors summary s =
     (let uniqueCodeFiles = unique codeFiles in
      case getProjectName w s of
        Inl e \<Rightarrow> Inl e
      | Inr name \<Rightarrow>
     (case template_text name of
        Inl e \<Rightarrow> Inl e
      | Inr projectName \<Rightarrow>
          Inr (render \<lparr>
            summary_text = summary,
            project_text = projectName,
            code_section = join uniqueCodeFiles ''\<newline>'',
            runtime_section =
              (if length runtimeErrors > 0 then join (slice runtimeErrors 0 5) ''\<newline>''
               else ''No runtime errors found.''),
            build_section =
              (if length buildErrors > 0 then join (slice buildErrors 0 5) ''\<newline>''
               else ''No build errors found.''),
            eslint_section =
              (if length eslintErrors > 0 then join (slice eslintErrors 0 5) ''\<newline>''
               else ''No ESLint errors found.''),
            typescript_section =
              (if length typescriptErrors > 0 then join typescriptErrors ''\<newline>''
               else ''No TypeScript errors found.'') \<rparr>)))"

section \<open>Orchestrator\<close>

definition isWordChar :: "char \<Rightarrow> bool" where
  \<comment> \<open>The regular expression class \<^verbatim>\<open>\w\<close>: letters, digits, underscore.\<close>
  "isWordChar c =
     (let n = (of_char c :: nat)
      in (48 \<le> n \<and> n \<le> 57) \<or> (65 \<le> n \<and> n \<le> 90) \<or> (97 \<le> n \<and> n \<le> 122) \<or> n = 95)"

datatype separator = NoSeparator | SpaceRun | OtherRun

fun tokens_from :: "string \<Rightarrow> separator \<Rightarrow> string \<Rightarrow> string list" where
  \<comment> \<open>\<^verbatim>\<open>text.split(/\s+|[^\w\s]+/)\<close>: a separator is a longest run of white space or a
      longest run of characters that are neither word characters nor white space.\<close>
  "tokens_from cur sep [] = [cur]"
| "tokens_from cur sep (c # s) =
     (if isWordChar c then tokens_from (cur @ [c]) NoSeparator s
      else
        let run = (if isWhiteSpace c then SpaceRun else OtherRun)
        in if sep = run then tokens_from cur sep s
           else cur # tokens_from [] run s)"

definition countTokens :: "string \<Rightarrow> nat" where
  "countTokens text =
     (let tokens = tokens_from [] NoSeparator text;
          filteredTokens = filter (\<lambda>token. length token > 0) tokens
      in length filteredTokens)"

definition copyToClipboard :: "world \<Rightarrow> string \<Rightarrow> unit prog" where
  "copyToClipboard w text =
     (\<lambda>s. case clipboard_write w text of
             Some e \<Rightarrow> (Inl e, s)
           | None \<Rightarrow> (Inr (), s\<lparr>clipboard := Some text\<rparr>))"

definition launchBrowser :: "world \<Rightarrow> unit prog" where
  \<comment> \<open>\<^verbatim>\<open>await puppeteer.launch()\<close>: from here the run holds a browser.\<close>
  "launchBrowser w =
     (\<lambda>s. case puppeteer_launch w of
             Some e \<Rightarrow> (Inl e, s)
           | None \<Rightarrow> (Inr (), s\<lparr>browser_open := True\<rparr>))"

definition closeBrowser :: "world \<Rightarrow> unit prog" where
  \<comment> \<open>\<^verbatim>\<open>await browser.close()\<close>\<close>
  "closeBrowser w =
     (\<lambda>s. case browser_close w of
             Some e \<Rightarrow> (Inl e, s)
           | None \<Rightarrow> (Inr (), s\<lparr>browser_open := False\<rparr>))"

definition collectBuildErrors :: "world \<Rightarrow> string list prog" where
  "collectBuildErrors w =
     tryCatch
       (liftE (\<lambda>s. case errorOverlay w of
                      Inl e \<Rightarrow> Inl e | Inr overlay \<Rightarrow> Inr (buildErrorLines overlay)))
       (\<lambda>e. bind (console_error ''Failed to retrieve build errors:'' e) (\<lambda>_. returnP []))"

definition collectESLintErrors :: "world \<Rightarrow> string list prog" where
  "collectESLintErrors w =
     tryCatch
       (let eslintArgs = [''src'', ''--ext'', ''.js,.jsx,.ts,.tsx'', ''--format'', ''json''];
            eslintPath = path_join [dirname w, ''node_modules'', ''eslint'', ''bin'', ''eslint.js'']
        in bind (runCommand w ''node'' (eslintPath # eslintArgs))
             (\<lambda>(eslintOutput, errorOutput). parseESLintOutput w eslintOutput))
       (\<lambda>e. bind (console_error ''Failed to run ESLint:'' e) (\<lambda>_. returnP []))"

definition collectTypescriptErrors :: "world \<Rightarrow> string list prog" where
  "collectTypescriptErrors w =
     tryCatch
       (let typescriptArgs = [''--noEmit'', ''--listEmittedFiles'', ''--diagnostics''];
            typescriptPath = path_join [dirname w, ''node_modules'', ''typescript'', ''bin'', ''tsc'']
        in bind (runCommand w typescriptPath typescriptArgs)
             (\<lambda>(typescriptOutput, errorOutput).
                returnP (summarizeTypescriptErrors typescriptOutput)))
       (\<lambda>e. bind (console_error ''Failed to run TypeScript:'' e) (\<lambda>_. returnP []))"

definition summaryText ::
  "string list \<Rightarrow> string list \<Rightarrow> string list \<Rightarrow> string list \<Rightarrow> string list \<Rightarrow> string list
     \<Rightarrow> string" where
  "summaryText filePaths codeFiles summaryRuntimeErrors buildErrors eslintErrors typescriptErrors =
     ''- Total files: '' @ show_nat (length filePaths)
     @ ''\<newline>- Lines of code: '' @ show_nat (length (split (join codeFiles []) CHR ''\<newline>''))
     @ ''\<newline>- Runtime errors: '' @ show_nat (length summaryRuntimeErrors)
     @ ''\<newline>- Build errors: '' @ show_nat (length buildErrors)
     @ ''\<newline>- ESLint errors: '' @ show_nat (length eslintErrors)
     @ ''\<newline>- TypeScript errors: '' @ show_nat (length typescriptErrors)"

definition mainDeliver :: "world \<Rightarrow> string \<Rightarrow> string \<Rightarrow> unit prog" where
  \<comment> \<open>The end of the main function, from writing the report to closing the browser.\<close>
  "mainDeliver w summary output =
     bind (writeFileSync w ''output.md'' output) (\<lambda>_.
     bind (copyToClipboard w output) (\<lambda>_.
     bind (console_log ''Output generated and copied to clipboard successfully!'') (\<lambda>_.
     bind (console_log summary) (\<lambda>_.
     bind (console_log (''- Token count: '' @ show_nat (countTokens output))) (\<lambda>_.
     closeBrowser w)))))"

definition mainReport :: "world \<Rightarrow> string list \<Rightarrow> string list \<Rightarrow> string list \<Rightarrow> string list
                          \<Rightarrow> string list \<Rightarrow> unit prog" where
  \<comment> \<open>The middle of the main function, from clearing \<^verbatim>\<open>output.md\<close> to the report text.\<close>
  "mainReport w excl summaryRuntimeErrors buildErrors eslintErrors typescriptErrors =
     bind (writeFileSync w ''output.md'' []) (\<lambda>_.
     bind (liftE (getFilePaths w excl (dirname w))) (\<lambda>filePaths.
     bind (liftE (\<lambda>s. mapE (getFileContentWithStructure w s) filePaths)) (\<lambda>codeFiles.
     let summary = summaryText filePaths codeFiles summaryRuntimeErrors buildErrors
                     eslintErrors typescriptErrors
     in
     bind (liftE (generateOutput w codeFiles summaryRuntimeErrors buildErrors eslintErrors
                    typescriptErrors summary)) (\<lambda>output.
     mainDeliver w summary output))))"

definition mainCapture :: "world \<Rightarrow> string list \<Rightarrow> unit prog" where
  \<comment> \<open>The main function after the launch, up to the last diagnostics collector.\<close>
  "mainCapture w excl =
     bind (external (browser_newPage w)) (\<lambda>_.
     bind (external (page_evaluateOnNewDocument w)) (\<lambda>_.
     bind (external (page_goto w ''http://localhost:3000'')) (\<lambda>_.
     bind (external (page_waitForSelector w ''body'')) (\<lambda>_.
     bind (liftE (\<lambda>s. capturedErrors w)) (\<lambda>runtimeErrors.
     bind (liftE (\<lambda>s. mapE summarizeRuntimeError runtimeErrors)) (\<lambda>summaryRuntimeErrors.
     bind (collectBuildErrors w) (\<lambda>buildErrors.
     bind (collectESLintErrors w) (\<lambda>eslintErrors.
     bind (collectTypescriptErrors w) (\<lambda>typescriptErrors.
     mainReport w excl summaryRuntimeErrors buildErrors eslintErrors typescriptErrors
     )))))))))"

definition main :: "world \<Rightarrow> unit prog" where
  \<comment> \<open>Loading the module computes \<^verbatim>\<open>excludeFiles\<close>; then the asynchronous main function
      runs, one awaited step after the other: \<open>mainCapture\<close>, \<open>mainReport\<close> and
      \<open>mainDeliver\<close> are its three parts in order.\<close>
  "main w =
     bind (liftE (excludeFiles w)) (\<lambda>excl.
     bind (launchBrowser w) (\<lambda>_.
     mainCapture w excl))"

section \<open>An example project\<close>

text \<open>
  A small project to run the definitions on: a \<^verbatim>\<open>.gitignore\<close>, two scripts of which one
  is blank, an image, a manifest and a source directory. The linter prints no JSON, the
  type checker reports one error, the page throws twice.
\<close>

definition parse_table :: "(string \<times> json) list \<Rightarrow> string \<Rightarrow> error + json" where
  \<comment> \<open>A JSON parser given by the texts it is asked about: the listed texts parse to their
      values, any other text is malformed.\<close>
  "parse_table known text =
     (case map_of known text of Some v \<Rightarrow> Inr v | None \<Rightarrow> Inl SyntaxError)"

definition demo_files :: fsnode where
  \<open>demo_files = Dir [(''proj'', Dir [
      (''.gitignore'', File ''b.png\<newline>''),
      (''a.js'', File ''const x=1;''),
      (''b.png'', File ''PNG''),
      (''blank.js'', File '' \<newline>''),
      (''package.json'', File ''{"name":"demo"}''),
      (''src'', Dir [(''App.js'', File ''export default 1;\<newline>'')])])]\<close>

definition demo_world :: world where
  \<open>demo_world = \<lparr>
     cwd = ''/proj'',
     dirname = ''/proj'',
     JSON_parse = parse_table [(''{"name":"demo"}'', JObj [(''name'', JStr ''demo'')])],
     spawn = (\<lambda>command args.
        if command = ''node'' then Inr (''Oops! Something went wrong'', [])
        else Inr (''src/App.ts(1,1): error TS2304: Cannot find name x.\<newline>Files: 3\<newline>'', [])),
     puppeteer_launch = None,
     browser_newPage = None,
     page_evaluateOnNewDocument = None,
     page_goto = (\<lambda>url. None),
     page_waitForSelector = (\<lambda>selector. None),
     capturedErrors = Inr [''ReferenceError: y is not defined\<newline>    at App (App.js:3:1)'',
                           ''Script error.''],
     errorOverlay = Inr None,
     clipboard_write = (\<lambda>text. None),
     browser_close = None \<rparr>\<close>

definition demo_state :: state where
  "demo_state = \<lparr> files = demo_files, browser_open = False, console = [], clipboard = None \<rparr>"

definition bare_state :: state where
  \<comment> \<open>The same project directory with nothing in it, so without a manifest.\<close>
  "bare_state = demo_state\<lparr>files := Dir [(''proj'', Dir [])]\<rparr>"

definition offline_world :: world where
  \<comment> \<open>The application is not being served: navigation fails.\<close>
  "offline_world =
     demo_world\<lparr>page_goto := (\<lambda>url. Some (Failure ''net::ERR_CONNECTION_REFUSED''))\<rparr>"

definition demo_codeFiles :: "string list" where
  \<comment> \<open>What the renderer returns for the four enumerated files of the example.\<close>
  \<open>demo_codeFiles =
     [''[a.js]\<newline>const x=1;\<newline>...\<newline>'',
      [],
      ''[package.json]\<newline>{"name":"demo"}\<newline>...\<newline>'',
      ''[src/App.js]\<newline>export default 1;\<newline>...\<newline>'']\<close>

definition demo_summary :: string where
  "demo_summary = ''- Total files: 4\<newline>- Lines of code: 10\<newline>- Runtime errors: 2\<newline>- Build errors: 0\<newline>- ESLint errors: 0\<newline>- TypeScript errors: 1''"

definition demo_report :: report where
  \<comment> \<open>The seven holes of the report of the example run.\<close>
  \<open>demo_report = \<lparr>
     summary_text = demo_summary,
     project_text = ''demo'',
     code_section = ''[a.js]\<newline>const x=1;\<newline>...\<newline>\<newline>\<newline>[package.json]\<newline>{"name":"demo"}\<newline>...\<newline>\<newline>[src/App.js]\<newline>export default 1;\<newline>...\<newline>'',
     runtime_section = ''- ReferenceError: y is not defined\<newline>      at App (App.js:3:1)\<newline>- Script error.\<newline>  undefined'',
     build_section = ''No build errors found.'',
     eslint_section = ''No ESLint errors found.'',
     typescript_section = ''src/App.ts(1,1): error TS2304: Cannot find name x.'' \<rparr>\<close>

definition demo_final :: state where
  \<comment> \<open>The state the example run ends in.\<close>
  \<open>demo_final = \<lparr>
     files = Dir [(''proj'', Dir [
      (''.gitignore'', File ''b.png\<newline>''),
      (''a.js'', File ''const x=1;''),
      (''b.png'', File ''PNG''),
      (''blank.js'', File '' \<newline>''),
      (''package.json'', File ''{"name":"demo"}''),
      (''src'', Dir [(''App.js'', File ''export default 1;\<newline>'')]),
      (''output.md'', File (render demo_report))])],
     browser_open = False,
     console = [ConsoleError ''Failed to parse ESLint output:'' SyntaxError,
                ConsoleLog ''Output generated and copied to clipboard successfully!'',
                ConsoleLog demo_summary,
                ConsoleLog ''- Token count: 130''],
     clipboard = Some (render demo_report) \<rparr>\<close>

definition overlay_world :: world where
  \<comment> \<open>The example with a build that failed: the page shows the error overlay.\<close>
  "overlay_world = demo_world\<lparr>errorOverlay :=
     Inr (Some ''Failed to compile.\<newline>\<newline>./src/App.js\<newline>  Line 3:  y is not defined  no-undef\<newline>'')\<rparr>"

definition overlay_report :: report where
  \<comment> \<open>The seven holes of the report of the run with the overlay.\<close>
  \<open>overlay_report = \<lparr>
     summary_text = ''- Total files: 4\<newline>- Lines of code: 10\<newline>- Runtime errors: 2\<newline>- Build errors: 4\<newline>- ESLint errors: 0\<newline>- TypeScript errors: 1'',
     project_text = ''demo'',
     code_section = ''[a.js]\<newline>const x=1;\<newline>...\<newline>\<newline>\<newline>[package.json]\<newline>{"name":"demo"}\<newline>...\<newline>\<newline>[src/App.js]\<newline>export default 1;\<newline>...\<newline>'',
     runtime_section = ''- ReferenceError: y is not defined\<newline>      at App (App.js:3:1)\<newline>- Script error.\<newline>  undefined'',
     build_section = ''Failed to compile.\<newline>\<newline>./src/App.js\<newline>  Line 3:  y is not defined  no-undef'',
     eslint_section = ''No ESLint errors found.'',
     typescript_section = ''src/App.ts(1,1): error TS2304: Cannot find name x.'' \<rparr>\<close>

definition overlay_final :: state where
  \<comment> \<open>The state the run with the overlay ends in.\<close>
  \<open>overlay_final = \<lparr>
     files = Dir [(''proj'', Dir [
      (''.gitignore'', File ''b.png\<newline>''),
      (''a.js'', File ''const x=1;''),
      (''b.png'', File ''PNG''),
      (''blank.js'', File '' \<newline>''),
      (''package.json'', File ''{"name":"demo"}''),
      (''src'', Dir [(''App.js'', File ''export default 1;\<newline>'')]),
      (''output.md'', File (render overlay_report))])],
     browser_open = False,
     console = [ConsoleError ''Failed to parse ESLint output:'' SyntaxError,
                ConsoleLog ''Output generated and copied to clipboard successfully!'',
                ConsoleLog ''- Total files: 4\<newline>- Lines of code: 10\<newline>- Runtime errors: 2\<newline>- Build errors: 4\<newline>- ESLint errors: 0\<newline>- TypeScript errors: 1'',
                ConsoleLog ''- Token count: 140''],
     clipboard = Some (render overlay_report) \<rparr>\<close>

section \<open>Properties of the pattern matcher\<close>

lemma startsWith_prefix: "startsWith s p \<longleftrightarrow> prefix p s"
  unfolding startsWith_def
  by (metis append_eq_conv_conj prefix_def prefix_length_le take_is_prefix)

lemma endsWith_suffix: "endsWith s p \<longleftrightarrow> suffix p s"
proof
  assume "endsWith s p"
  then have "drop (length s - length p) s = p" by (simp add: endsWith_def)
  then show "suffix p s" by (metis suffix_drop)
next
  assume "suffix p s"
  then obtain q where s: "s = q @ p" by (auto simp: suffix_def)
  then show "endsWith s p" by (simp add: endsWith_def)
qed

lemma includes_sublist: "str_includes s p \<longleftrightarrow> sublist p s"
proof (induction s)
  case Nil
  show ?case by (simp add: startsWith_prefix)
next
  case (Cons c s)
  show ?case
    using Cons.IH by (auto simp: startsWith_prefix sublist_Cons_right)
qed

lemma some_set: "some p xs \<longleftrightarrow> (\<exists>x \<in> set xs. p x)"
  by (induction xs) auto

lemma excluded_by_rule_matches: "excluded_by P r \<longleftrightarrow> rule_matches r P"
  by (cases r)
     (auto simp: excluded_by_def rule_matches_def classify_def substring_def Let_def
        startsWith_prefix endsWith_suffix includes_sublist drop_Suc)

text \<open>
  C1. For every path \<open>P\<close> and rule list \<open>R\<close>, \<^verbatim>\<open>shouldIncludeFile\<close> answers false exactly
  when some rule of \<open>R\<close> matches \<open>P\<close> under its kind: a rule starting with \<^verbatim>\<open>*.\<close> when
  the base name ends with the rule minus its star, a rule starting with \<^verbatim>\<open>/\<close> when the
  whole path contains the rule minus its slash, any other rule when the base name equals it.
\<close>

theorem shouldIncludeFile_false_iff:
  "shouldIncludeFile R P = False \<longleftrightarrow> (\<exists>r \<in> set R. rule_matches r P)"
  by (simp add: shouldIncludeFile_def some_set excluded_by_rule_matches)

theorem shouldIncludeFile_false_iff_witness:
  "shouldIncludeFile [''concat.js'', ''*.md''] ''docs/README.md'' = False
   \<and> (\<exists>r \<in> set [''concat.js'', ''*.md'']. rule_matches r ''docs/README.md'')"
  using shouldIncludeFile_false_iff [of "[''concat.js'', ''*.md'']" "''docs/README.md''"]
  by (simp add: shouldIncludeFile_def excluded_by_def startsWith_def endsWith_def
      substring_def basename_def)

text \<open>
  C7. A path-fragment rule matches on plain substring containment: the rule \<^verbatim>\<open>/build\<close>
  excludes \<^verbatim>\<open>rebuild/x.js\<close>, although \<^verbatim>\<open>build\<close> is no segment of that path and the path
  does not contain \<^verbatim>\<open>/build\<close>.
\<close>

theorem fragment_rule_matches_inside_segment:
  "\<exists>P r. startsWith r ''/'' \<and> excluded_by P r \<and> shouldIncludeFile [r] P = False
     \<and> substring r 1 \<notin> set (segments P) \<and> \<not> str_includes P r
     \<and> r = ''/build'' \<and> P = ''rebuild/x.js''"
  by (simp add: shouldIncludeFile_def excluded_by_def startsWith_def substring_def
      segments_def split_def)

text \<open>
  C9. Adding a rule that does not match \<open>P\<close>, anywhere in the rule list, leaves the answer
  for \<open>P\<close> as it was.
\<close>

theorem non_matching_rule_irrelevant:
  "\<not> rule_matches r P \<Longrightarrow>
     shouldIncludeFile (R1 @ r # R2) P = shouldIncludeFile (R1 @ R2) P"
  by (auto simp: shouldIncludeFile_def some_set excluded_by_rule_matches)

theorem non_matching_rule_irrelevant_witness:
  "\<not> rule_matches ''*.png'' ''src/App.js''
   \<and> shouldIncludeFile ([''/dist''] @ ''*.png'' # [''App.js'']) ''src/App.js''
       = shouldIncludeFile ([''/dist''] @ [''App.js'']) ''src/App.js''"
proof -
  have h: "\<not> rule_matches ''*.png'' ''src/App.js''"
    by (simp add: rule_matches_def classify_def basename_def suffix_def)
  show ?thesis
    using h non_matching_rule_irrelevant [OF h, of "[''/dist'']" "[''App.js'']"] by simp
qed

section \<open>Properties of the string and array methods\<close>

lemma slice_take: "slice xs 0 n = take n xs"
  by (simp add: slice_def list_eq_iff_nth_eq)

lemma slice_from_drop: "slice_from xs n = drop n xs"
  by (simp add: slice_from_def slice_def list_eq_iff_nth_eq)

lemma split_from_first:
  "\<exists>rest. split_from sep cur s = (cur @ takeWhile (\<lambda>c. c \<noteq> sep) s) # rest"
proof (induction s arbitrary: cur)
  case Nil
  show ?case by simp
next
  case (Cons a s)
  show ?case
  proof (cases "a = sep")
    case True
    then show ?thesis by simp
  next
    case False
    with Cons [of "cur @ [a]"] show ?thesis by simp
  qed
qed

lemma split_first: "\<exists>rest. split s sep = takeWhile (\<lambda>c. c \<noteq> sep) s # rest"
  using split_from_first [of sep "[]" s] by (simp add: split_def)

lemma find_None: "find_elem p xs = None \<longleftrightarrow> (\<forall>x \<in> set xs. \<not> p x)"
  by (induction xs) auto

lemma dropWhile_all: "(\<forall>x \<in> set (dropWhile P xs). P x) \<longleftrightarrow> (\<forall>x \<in> set xs. P x)"
proof
  assume all: "\<forall>x \<in> set (dropWhile P xs). P x"
  have "dropWhile P xs = []"
  proof (rule ccontr)
    assume ne: "dropWhile P xs \<noteq> []"
    then have "\<not> P (hd (dropWhile P xs))" by (rule hd_dropWhile)
    moreover have "hd (dropWhile P xs) \<in> set (dropWhile P xs)" using ne by simp
    ultimately show False using all by blast
  qed
  then show "\<forall>x \<in> set xs. P x" by (simp add: dropWhile_eq_Nil_conv)
next
  assume "\<forall>x \<in> set xs. P x"
  then show "\<forall>x \<in> set (dropWhile P xs). P x" by (meson set_dropWhileD)
qed

lemma trim_empty_iff: "trim s = [] \<longleftrightarrow> list_all isWhiteSpace s"
  by (simp add: trim_def dropWhile_eq_Nil_conv list_all_iff dropWhile_all)

lemma trim_decompose:
  "\<exists>pre post. s = pre @ trim s @ post \<and> list_all isWhiteSpace pre \<and> list_all isWhiteSpace post"
proof -
  let ?a = "takeWhile isWhiteSpace s"
  let ?m = "dropWhile isWhiteSpace s"
  let ?b = "rev (takeWhile isWhiteSpace (rev ?m))"
  have "rev ?m = takeWhile isWhiteSpace (rev ?m) @ dropWhile isWhiteSpace (rev ?m)" by simp
  then have "?m = trim s @ ?b" unfolding trim_def
    by (metis rev_append rev_rev_ident)
  then have "s = ?a @ trim s @ ?b" by (metis takeWhile_dropWhile_id)
  moreover have "list_all isWhiteSpace ?a" by (simp add: list_all_iff) (meson set_takeWhileD)
  moreover have "list_all isWhiteSpace ?b" by (simp add: list_all_iff) (meson set_takeWhileD)
  ultimately show ?thesis by blast
qed

lemma trim_ends:
  assumes "trim s \<noteq> []"
  shows "\<not> isWhiteSpace (hd (trim s))" and "\<not> isWhiteSpace (last (trim s))"
proof -
  let ?m = "dropWhile isWhiteSpace s"
  let ?d = "dropWhile isWhiteSpace (rev ?m)"
  have d: "?d \<noteq> []" using assms by (simp add: trim_def)
  have m: "?m \<noteq> []"
  proof
    assume "?m = []"
    then have "?d = []" by (simp only: rev.simps dropWhile.simps)
    with d show False by contradiction
  qed
  have "last (trim s) = hd ?d" using d by (simp add: trim_def last_rev)
  then show "\<not> isWhiteSpace (last (trim s))" using hd_dropWhile [OF d] by simp
  have "rev ?m = takeWhile isWhiteSpace (rev ?m) @ ?d" by simp
  then have "last (rev ?m) = last ?d" using d by (metis last_appendR)
  then have "hd ?m = last ?d" using m by (simp add: last_rev)
  moreover have "hd (trim s) = last ?d" using d by (simp add: trim_def hd_rev)
  ultimately show "\<not> isWhiteSpace (hd (trim s))" using hd_dropWhile [OF m] by simp
qed

section \<open>Properties of the content renderer\<close>

lemma demo_paths:
  "resolve_parts ''/proj'' ''/proj/a.js'' = [''proj'', ''a.js'']"
  "resolve_parts ''/proj'' ''/proj/blank.js'' = [''proj'', ''blank.js'']"
  "resolve_parts ''/proj'' ''/proj'' = [''proj'']"
  by (simp_all add: resolve_parts_def path_parts_def split_def startsWith_def)

lemma demo_relative:
  "relative ''/proj'' ''/proj'' ''/proj/a.js'' = ''a.js''"
  "relative ''/proj'' ''/proj'' ''/proj/blank.js'' = ''blank.js''"
  by (simp_all add: relative_def demo_paths)

lemma demo_read:
  "readFileSync demo_world ''/proj/a.js'' demo_state = Inr ''const x=1;''"
  "readFileSync demo_world ''/proj/blank.js'' demo_state = Inr '' \<newline>''"
  by code_simp+

text \<open>
  C3. For a file whose path relative to the script's directory is not \<^verbatim>\<open>output.md\<close>: when
  the trimmed content is empty, as it is for a file of white space only, the renderer
  returns the empty string; otherwise it returns exactly the header line with the relative
  path in square brackets, the trimmed content, and the line of three dots. The trimmed
  content is the file's text without the white space at its two ends.
\<close>

theorem render_block:
  assumes "relative (cwd w) (dirname w) filePath \<noteq> ''output.md''"
      and "readFileSync w filePath s = Inr text"
  shows "(list_all isWhiteSpace text \<longrightarrow> trim text = [])
       \<and> (trim text = [] \<longrightarrow> getFileContentWithStructure w s filePath = Inr [])
       \<and> (trim text \<noteq> [] \<longrightarrow> getFileContentWithStructure w s filePath =
             Inr (''['' @ relative (cwd w) (dirname w) filePath @ '']\<newline>''
                  @ trim text @ ''\<newline>...\<newline>''))
       \<and> (\<exists>pre post. text = pre @ trim text @ post
             \<and> list_all isWhiteSpace pre \<and> list_all isWhiteSpace post)
       \<and> (trim text \<noteq> [] \<longrightarrow>
             \<not> isWhiteSpace (hd (trim text)) \<and> \<not> isWhiteSpace (last (trim text)))"
  using assms trim_decompose [of "text"] trim_ends [of "text"]
  by (simp add: getFileContentWithStructure_def Let_def trim_empty_iff)

theorem render_block_witness:
  "relative (cwd demo_world) (dirname demo_world) ''/proj/blank.js'' \<noteq> ''output.md''
   \<and> readFileSync demo_world ''/proj/blank.js'' demo_state = Inr '' \<newline>''
   \<and> getFileContentWithStructure demo_world demo_state ''/proj/blank.js'' = Inr []
   \<and> relative (cwd demo_world) (dirname demo_world) ''/proj/a.js'' \<noteq> ''output.md''
   \<and> readFileSync demo_world ''/proj/a.js'' demo_state = Inr ''const x=1;''
   \<and> getFileContentWithStructure demo_world demo_state ''/proj/a.js''
       = Inr ''[a.js]\<newline>const x=1;\<newline>...\<newline>''"
proof -
  have dirs: "cwd demo_world = ''/proj''" "dirname demo_world = ''/proj''"
    by (simp_all add: demo_world_def)
  show ?thesis
    using render_block [of demo_world "''/proj/blank.js''" demo_state "'' \<newline>''"]
          render_block [of demo_world "''/proj/a.js''" demo_state "''const x=1;''"]
    by (simp add: demo_read dirs demo_relative trim_def isWhiteSpace_def)
qed

section \<open>Properties of the runtime-error collector\<close>

text \<open>
  C10. When no line after the first of a runtime error contains \<^verbatim>\<open>at \<close>, the entry is the
  trimmed first line after a dash, a line break, two spaces and the text \<^verbatim>\<open>undefined\<close>.
\<close>

theorem no_frame_gives_undefined:
  "\<forall>line \<in> set (tl (split err CHR ''\<newline>'')). \<not> sublist ''at '' line \<Longrightarrow>
   summarizeRuntimeError err =
     Inr (''- '' @ trim (takeWhile (\<lambda>c. c \<noteq> CHR ''\<newline>'') err) @ ''\<newline>  undefined'')"
proof -
  assume no_frame: "\<forall>line \<in> set (tl (split err CHR ''\<newline>'')). \<not> sublist ''at '' line"
  obtain rest where
    lines: "split err CHR ''\<newline>'' = takeWhile (\<lambda>c. c \<noteq> CHR ''\<newline>'') err # rest"
    using split_first by blast
  have "find_elem (\<lambda>line. str_includes line ''at '') rest = None"
    using no_frame lines by (simp add: find_None includes_sublist)
  then show ?thesis
    by (simp add: summarizeRuntimeError_def lines slice_from_drop)
qed

theorem no_frame_gives_undefined_witness:
  "tl (split ''  Script error. \<newline>  in App'' CHR ''\<newline>'') = [''  in App'']
   \<and> \<not> sublist ''at '' ''  in App''
   \<and> summarizeRuntimeError ''  Script error. \<newline>  in App''
       = Inr ''- Script error.\<newline>  undefined''"
proof -
  have lines: "tl (split ''  Script error. \<newline>  in App'' CHR ''\<newline>'') = [''  in App'']"
    by (simp add: split_def)
  have no_frame: "\<not> sublist ''at '' ''  in App''"
    by (simp add: startsWith_def flip: includes_sublist)
  have h: "\<forall>line \<in> set (tl (split ''  Script error. \<newline>  in App'' CHR ''\<newline>'')).
             \<not> sublist ''at '' line"
    using lines no_frame by simp
  show ?thesis
    using lines no_frame no_frame_gives_undefined [OF h] by (simp add: trim_def isWhiteSpace_def)
qed

section \<open>Properties of the report assembler\<close>

lemma demo_project_name: "getProjectName demo_world demo_state = Inr (Some (JStr ''demo''))"
  by code_simp

lemma bare_project_name: "getProjectName demo_world bare_state = Inr (Some (JStr ''Unknown Project''))"
  by code_simp

lemma generateOutput_eq:
  "generateOutput w codeFiles runtimeErrors buildErrors eslintErrors typescriptErrors summary s =
     (case getProjectName w s of
        Inl e \<Rightarrow> Inl e
      | Inr name \<Rightarrow>
     (case template_text name of
        Inl e \<Rightarrow> Inl e
      | Inr projectName \<Rightarrow>
          Inr (render \<lparr>
            summary_text = summary,
            project_text = projectName,
            code_section = join (unique codeFiles) ''\<newline>'',
            runtime_section =
              (if runtimeErrors = [] then ''No runtime errors found.''
               else join (take 5 runtimeErrors) ''\<newline>''),
            build_section =
              (if buildErrors = [] then ''No build errors found.''
               else join (take 5 buildErrors) ''\<newline>''),
            eslint_section =
              (if eslintErrors = [] then ''No ESLint errors found.''
               else join (take 5 eslintErrors) ''\<newline>''),
            typescript_section =
              (if typescriptErrors = [] then ''No TypeScript errors found.''
               else join typescriptErrors ''\<newline>'') \<rparr>)))"
  by (simp add: generateOutput_def slice_take split: sum.splits)

lemma render_text:
  "render \<lparr>summary_text = a, project_text = b, code_section = c, runtime_section = d,
      build_section = e, eslint_section = f, typescript_section = g\<rparr> =
        ''# Overview\<newline>''
        @ ''This file provides a summary of the codebase, including code files. Please provide the updated and\<newline>''
        @ ''fixed code for each distinct file that requires changes to fix intentionally introduced errors\<newline>''
        @ ''(runtime, build, ESLint, and TypeScript), along with concise corrections. Do not include files\<newline>''
        @ ''that do not require any changes.\<newline>''
        @ ''\<newline>## Summary\<newline>'' @ a
        @ ''\<newline>\<newline># Project: '' @ b
        @ ''\<newline>\<newline>## Code Files\<newline>\<newline>'' @ c
        @ ''\<newline>\<newline>## Runtime Errors\<newline>\<newline>''
        @ d
        @ ''\<newline>\<newline>## Build Errors\<newline>\<newline>''
        @ e
        @ ''\<newline>\<newline>## ESLint Errors\<newline>\<newline>''
        @ f
        @ ''\<newline>\<newline>## TypeScript Errors\<newline>\<newline>''
        @ g
        @ ''\<newline>''"
  by (simp only: render_def report.select_convs)

lemma generateOutput_text:
  assumes "generateOutput w codeFiles runtimeErrors buildErrors eslintErrors typescriptErrors
             summary s = Inr out"
  shows "\<exists>projectName. out =
        ''# Overview\<newline>''
        @ ''This file provides a summary of the codebase, including code files. Please provide the updated and\<newline>''
        @ ''fixed code for each distinct file that requires changes to fix intentionally introduced errors\<newline>''
        @ ''(runtime, build, ESLint, and TypeScript), along with concise corrections. Do not include files\<newline>''
        @ ''that do not require any changes.\<newline>''
        @ ''\<newline>## Summary\<newline>'' @ summary
        @ ''\<newline>\<newline># Project: '' @ projectName
        @ ''\<newline>\<newline>## Code Files\<newline>\<newline>'' @ join (unique codeFiles) ''\<newline>''
        @ ''\<newline>\<newline>## Runtime Errors\<newline>\<newline>''
        @ (if runtimeErrors = [] then ''No runtime errors found.''
           else join (take 5 runtimeErrors) ''\<newline>'')
        @ ''\<newline>\<newline>## Build Errors\<newline>\<newline>''
        @ (if buildErrors = [] then ''No build errors found.''
           else join (take 5 buildErrors) ''\<newline>'')
        @ ''\<newline>\<newline>## ESLint Errors\<newline>\<newline>''
        @ (if eslintErrors = [] then ''No ESLint errors found.''
           else join (take 5 eslintErrors) ''\<newline>'')
        @ ''\<newline>\<newline>## TypeScript Errors\<newline>\<newline>''
        @ (if typescriptErrors = [] then ''No TypeScript errors found.''
           else join typescriptErrors ''\<newline>'')
        @ ''\<newline>''"
proof -
  from assms obtain projectName where "out = render \<lparr>
            summary_text = summary,
            project_text = projectName,
            code_section = join (unique codeFiles) ''\<newline>'',
            runtime_section =
              (if runtimeErrors = [] then ''No runtime errors found.''
               else join (take 5 runtimeErrors) ''\<newline>''),
            build_section =
              (if buildErrors = [] then ''No build errors found.''
               else join (take 5 buildErrors) ''\<newline>''),
            eslint_section =
              (if eslintErrors = [] then ''No ESLint errors found.''
               else join (take 5 eslintErrors) ''\<newline>''),
            typescript_section =
              (if typescriptErrors = [] then ''No TypeScript errors found.''
               else join typescriptErrors ''\<newline>'') \<rparr>"
    by (auto simp: generateOutput_eq split: sum.splits)
  then have unfolded: "out =
        ''# Overview\<newline>''
        @ ''This file provides a summary of the codebase, including code files. Please provide the updated and\<newline>''
        @ ''fixed code for each distinct file that requires changes to fix intentionally introduced errors\<newline>''
        @ ''(runtime, build, ESLint, and TypeScript), along with concise corrections. Do not include files\<newline>''
        @ ''that do not require any changes.\<newline>''
        @ ''\<newline>## Summary\<newline>'' @ summary
        @ ''\<newline>\<newline># Project: '' @ projectName
        @ ''\<newline>\<newline>## Code Files\<newline>\<newline>'' @ join (unique codeFiles) ''\<newline>''
        @ ''\<newline>\<newline>## Runtime Errors\<newline>\<newline>''
        @ (if runtimeErrors = [] then ''No runtime errors found.''
           else join (take 5 runtimeErrors) ''\<newline>'')
        @ ''\<newline>\<newline>## Build Errors\<newline>\<newline>''
        @ (if buildErrors = [] then ''No build errors found.''
           else join (take 5 buildErrors) ''\<newline>'')
        @ ''\<newline>\<newline>## ESLint Errors\<newline>\<newline>''
        @ (if eslintErrors = [] then ''No ESLint errors found.''
           else join (take 5 eslintErrors) ''\<newline>'')
        @ ''\<newline>\<newline>## TypeScript Errors\<newline>\<newline>''
        @ (if typescriptErrors = [] then ''No TypeScript errors found.''
           else join typescriptErrors ''\<newline>'')
        @ ''\<newline>''"
    by (simp only: render_text)
  show ?thesis by (rule exI) (rule unfolded)
qed

lemma offline_project_name:
  "getProjectName offline_world (demo_state\<lparr>clipboard := Some ''kept''\<rparr>)
     = Inr (Some (JStr ''demo''))"
  by code_simp

text \<open>
  C2. Every report that \<^verbatim>\<open>generateOutput\<close> returns is the fixed text of the template with,
  under the headings \<^verbatim>\<open>## Runtime Errors\<close>, \<^verbatim>\<open>## Build Errors\<close> and \<^verbatim>\<open>## ESLint Errors\<close>, the
  first five entries of the list at most, joined by line breaks, and under
  \<^verbatim>\<open>## TypeScript Errors\<close> every entry of its list. Nothing of an entry after the fifth
  reaches the report: the text is the same when those entries are dropped from the three
  capped lists.
\<close>

theorem diagnostic_sections_capped:
  "generateOutput w codeFiles runtimeErrors buildErrors eslintErrors typescriptErrors summary s
     = Inr out \<Longrightarrow>
   (\<exists>projectName. out =
        ''# Overview\<newline>''
        @ ''This file provides a summary of the codebase, including code files. Please provide the updated and\<newline>''
        @ ''fixed code for each distinct file that requires changes to fix intentionally introduced errors\<newline>''
        @ ''(runtime, build, ESLint, and TypeScript), along with concise corrections. Do not include files\<newline>''
        @ ''that do not require any changes.\<newline>''
        @ ''\<newline>## Summary\<newline>'' @ summary
        @ ''\<newline>\<newline># Project: '' @ projectName
        @ ''\<newline>\<newline>## Code Files\<newline>\<newline>'' @ join (unique codeFiles) ''\<newline>''
        @ ''\<newline>\<newline>## Runtime Errors\<newline>\<newline>''
        @ (if runtimeErrors = [] then ''No runtime errors found.''
           else join (take 5 runtimeErrors) ''\<newline>'')
        @ ''\<newline>\<newline>## Build Errors\<newline>\<newline>''
        @ (if buildErrors = [] then ''No build errors found.''
           else join (take 5 buildErrors) ''\<newline>'')
        @ ''\<newline>\<newline>## ESLint Errors\<newline>\<newline>''
        @ (if eslintErrors = [] then ''No ESLint errors found.''
           else join (take 5 eslintErrors) ''\<newline>'')
        @ ''\<newline>\<newline>## TypeScript Errors\<newline>\<newline>''
        @ (if typescriptErrors = [] then ''No TypeScript errors found.''
           else join typescriptErrors ''\<newline>'')
        @ ''\<newline>'')
   \<and> generateOutput w codeFiles (take 5 runtimeErrors) (take 5 buildErrors)
         (take 5 eslintErrors) typescriptErrors summary s = Inr out"
proof -
  assume h: "generateOutput w codeFiles runtimeErrors buildErrors eslintErrors typescriptErrors
               summary s = Inr out"
  have shape: "\<exists>projectName. out =
        ''# Overview\<newline>''
        @ ''This file provides a summary of the codebase, including code files. Please provide the updated and\<newline>''
        @ ''fixed code for each distinct file that requires changes to fix intentionally introduced errors\<newline>''
        @ ''(runtime, build, ESLint, and TypeScript), along with concise corrections. Do not include files\<newline>''
        @ ''that do not require any changes.\<newline>''
        @ ''\<newline>## Summary\<newline>'' @ summary
        @ ''\<newline>\<newline># Project: '' @ projectName
        @ ''\<newline>\<newline>## Code Files\<newline>\<newline>'' @ join (unique codeFiles) ''\<newline>''
        @ ''\<newline>\<newline>## Runtime Errors\<newline>\<newline>''
        @ (if runtimeErrors = [] then ''No runtime errors found.''
           else join (take 5 runtimeErrors) ''\<newline>'')
        @ ''\<newline>\<newline>## Build Errors\<newline>\<newline>''
        @ (if buildErrors = [] then ''No build errors found.''
           else join (take 5 buildErrors) ''\<newline>'')
        @ ''\<newline>\<newline>## ESLint Errors\<newline>\<newline>''
        @ (if eslintErrors = [] then ''No ESLint errors found.''
           else join (take 5 eslintErrors) ''\<newline>'')
        @ ''\<newline>\<newline>## TypeScript Errors\<newline>\<newline>''
        @ (if typescriptErrors = [] then ''No TypeScript errors found.''
           else join typescriptErrors ''\<newline>'')
        @ ''\<newline>''"
    by (rule generateOutput_text [OF h])
  have capped: "generateOutput w codeFiles (take 5 runtimeErrors) (take 5 buildErrors)
         (take 5 eslintErrors) typescriptErrors summary s = Inr out"
    using h by (auto simp: generateOutput_eq split: sum.splits)
  from shape capped show ?thesis by (rule conjI)
qed

theorem diagnostic_sections_capped_witness:
  "generateOutput demo_world [] [''R1'', ''R2'', ''R3'', ''R4'', ''R5'', ''R6''] [''B1'', ''B2'']
       [''L1'', ''L2'', ''L3'', ''L4'', ''L5'', ''L6'', ''L7'', ''L8'']
       [''T1'', ''T2'', ''T3'', ''T4'', ''T5'', ''T6'', ''T7'', ''T8''] ''S'' demo_state
     = Inr (
        ''# Overview\<newline>''
        @ ''This file provides a summary of the codebase, including code files. Please provide the updated and\<newline>''
        @ ''fixed code for each distinct file that requires changes to fix intentionally introduced errors\<newline>''
        @ ''(runtime, build, ESLint, and TypeScript), along with concise corrections. Do not include files\<newline>''
        @ ''that do not require any changes.\<newline>''
        @ ''\<newline>## Summary\<newline>'' @ ''S''
        @ ''\<newline>\<newline># Project: '' @ ''demo''
        @ ''\<newline>\<newline>## Code Files\<newline>\<newline>'' @ []
        @ ''\<newline>\<newline>## Runtime Errors\<newline>\<newline>''
        @ ''R1\<newline>R2\<newline>R3\<newline>R4\<newline>R5''
        @ ''\<newline>\<newline>## Build Errors\<newline>\<newline>''
        @ ''B1\<newline>B2''
        @ ''\<newline>\<newline>## ESLint Errors\<newline>\<newline>''
        @ ''L1\<newline>L2\<newline>L3\<newline>L4\<newline>L5''
        @ ''\<newline>\<newline>## TypeScript Errors\<newline>\<newline>''
        @ ''T1\<newline>T2\<newline>T3\<newline>T4\<newline>T5\<newline>T6\<newline>T7\<newline>T8''
        @ ''\<newline>'')
   \<and> generateOutput demo_world [] [''R1'', ''R2'', ''R3'', ''R4'', ''R5''] [''B1'', ''B2'']
       [''L1'', ''L2'', ''L3'', ''L4'', ''L5'']
       [''T1'', ''T2'', ''T3'', ''T4'', ''T5'', ''T6'', ''T7'', ''T8''] ''S'' demo_state
     = Inr (
        ''# Overview\<newline>''
        @ ''This file provides a summary of the codebase, including code files. Please provide the updated and\<newline>''
        @ ''fixed code for each distinct file that requires changes to fix intentionally introduced errors\<newline>''
        @ ''(runtime, build, ESLint, and TypeScript), along with concise corrections. Do not include files\<newline>''
        @ ''that do not require any changes.\<newline>''
        @ ''\<newline>## Summary\<newline>'' @ ''S''
        @ ''\<newline>\<newline># Project: '' @ ''demo''
        @ ''\<newline>\<newline>## Code Files\<newline>\<newline>'' @ []
        @ ''\<newline>\<newline>## Runtime Errors\<newline>\<newline>''
        @ ''R1\<newline>R2\<newline>R3\<newline>R4\<newline>R5''
        @ ''\<newline>\<newline>## Build Errors\<newline>\<newline>''
        @ ''B1\<newline>B2''
        @ ''\<newline>\<newline>## ESLint Errors\<newline>\<newline>''
        @ ''L1\<newline>L2\<newline>L3\<newline>L4\<newline>L5''
        @ ''\<newline>\<newline>## TypeScript Errors\<newline>\<newline>''
        @ ''T1\<newline>T2\<newline>T3\<newline>T4\<newline>T5\<newline>T6\<newline>T7\<newline>T8''
        @ ''\<newline>'')"
proof -
  have folded: "generateOutput demo_world [] [''R1'', ''R2'', ''R3'', ''R4'', ''R5'', ''R6''] [''B1'', ''B2'']
       [''L1'', ''L2'', ''L3'', ''L4'', ''L5'', ''L6'', ''L7'', ''L8'']
       [''T1'', ''T2'', ''T3'', ''T4'', ''T5'', ''T6'', ''T7'', ''T8''] ''S'' demo_state
     = Inr (render \<lparr>
            summary_text = ''S'',
            project_text = ''demo'',
            code_section = [],
            runtime_section = ''R1\<newline>R2\<newline>R3\<newline>R4\<newline>R5'',
            build_section = ''B1\<newline>B2'',
            eslint_section = ''L1\<newline>L2\<newline>L3\<newline>L4\<newline>L5'',
            typescript_section = ''T1\<newline>T2\<newline>T3\<newline>T4\<newline>T5\<newline>T6\<newline>T7\<newline>T8'' \<rparr>)"
    by (simp add: generateOutput_eq demo_project_name template_text_def unique_def)
  have h: "generateOutput demo_world [] [''R1'', ''R2'', ''R3'', ''R4'', ''R5'', ''R6''] [''B1'', ''B2'']
       [''L1'', ''L2'', ''L3'', ''L4'', ''L5'', ''L6'', ''L7'', ''L8'']
       [''T1'', ''T2'', ''T3'', ''T4'', ''T5'', ''T6'', ''T7'', ''T8''] ''S'' demo_state
     = Inr (
        ''# Overview\<newline>''
        @ ''This file provides a summary of the codebase, including code files. Please provide the updated and\<newline>''
        @ ''fixed code for each distinct file that requires changes to fix intentionally introduced errors\<newline>''
        @ ''(runtime, build, ESLint, and TypeScript), along with concise corrections. Do not include files\<newline>''
        @ ''that do not require any changes.\<newline>''
        @ ''\<newline>## Summary\<newline>'' @ ''S''
        @ ''\<newline>\<newline># Project: '' @ ''demo''
        @ ''\<newline>\<newline>## Code Files\<newline>\<newline>'' @ []
        @ ''\<newline>\<newline>## Runtime Errors\<newline>\<newline>''
        @ ''R1\<newline>R2\<newline>R3\<newline>R4\<newline>R5''
        @ ''\<newline>\<newline>## Build Errors\<newline>\<newline>''
        @ ''B1\<newline>B2''
        @ ''\<newline>\<newline>## ESLint Errors\<newline>\<newline>''
        @ ''L1\<newline>L2\<newline>L3\<newline>L4\<newline>L5''
        @ ''\<newline>\<newline>## TypeScript Errors\<newline>\<newline>''
        @ ''T1\<newline>T2\<newline>T3\<newline>T4\<newline>T5\<newline>T6\<newline>T7\<newline>T8''
        @ ''\<newline>'')"
    using folded by (simp only: render_text)
  have "generateOutput demo_world []
       (take 5 [''R1'', ''R2'', ''R3'', ''R4'', ''R5'', ''R6''])
       (take 5 [''B1'', ''B2''])
       (take 5 [''L1'', ''L2'', ''L3'', ''L4'', ''L5'', ''L6'', ''L7'', ''L8''])
       [''T1'', ''T2'', ''T3'', ''T4'', ''T5'', ''T6'', ''T7'', ''T8''] ''S'' demo_state
     = Inr (
        ''# Overview\<newline>''
        @ ''This file provides a summary of the codebase, including code files. Please provide the updated and\<newline>''
        @ ''fixed code for each distinct file that requires changes to fix intentionally introduced errors\<newline>''
        @ ''(runtime, build, ESLint, and TypeScript), along with concise corrections. Do not include files\<newline>''
        @ ''that do not require any changes.\<newline>''
        @ ''\<newline>## Summary\<newline>'' @ ''S''
        @ ''\<newline>\<newline># Project: '' @ ''demo''
        @ ''\<newline>\<newline>## Code Files\<newline>\<newline>'' @ []
        @ ''\<newline>\<newline>## Runtime Errors\<newline>\<newline>''
        @ ''R1\<newline>R2\<newline>R3\<newline>R4\<newline>R5''
        @ ''\<newline>\<newline>## Build Errors\<newline>\<newline>''
        @ ''B1\<newline>B2''
        @ ''\<newline>\<newline>## ESLint Errors\<newline>\<newline>''
        @ ''L1\<newline>L2\<newline>L3\<newline>L4\<newline>L5''
        @ ''\<newline>\<newline>## TypeScript Errors\<newline>\<newline>''
        @ ''T1\<newline>T2\<newline>T3\<newline>T4\<newline>T5\<newline>T6\<newline>T7\<newline>T8''
        @ ''\<newline>'')"
    using diagnostic_sections_capped [OF h] by (rule conjunct2)
  moreover have "take 5 [''R1'', ''R2'', ''R3'', ''R4'', ''R5'', ''R6''] = [''R1'', ''R2'', ''R3'', ''R4'', ''R5'']"
    "take 5 [''B1'', ''B2''] = [''B1'', ''B2'']"
    "take 5 [''L1'', ''L2'', ''L3'', ''L4'', ''L5'', ''L6'', ''L7'', ''L8''] = [''L1'', ''L2'', ''L3'', ''L4'', ''L5'']"
    by simp_all
  ultimately have dropped: "generateOutput demo_world [] [''R1'', ''R2'', ''R3'', ''R4'', ''R5''] [''B1'', ''B2'']
       [''L1'', ''L2'', ''L3'', ''L4'', ''L5'']
       [''T1'', ''T2'', ''T3'', ''T4'', ''T5'', ''T6'', ''T7'', ''T8''] ''S'' demo_state
     = Inr (
        ''# Overview\<newline>''
        @ ''This file provides a summary of the codebase, including code files. Please provide the updated and\<newline>''
        @ ''fixed code for each distinct file that requires changes to fix intentionally introduced errors\<newline>''
        @ ''(runtime, build, ESLint, and TypeScript), along with concise corrections. Do not include files\<newline>''
        @ ''that do not require any changes.\<newline>''
        @ ''\<newline>## Summary\<newline>'' @ ''S''
        @ ''\<newline>\<newline># Project: '' @ ''demo''
        @ ''\<newline>\<newline>## Code Files\<newline>\<newline>'' @ []
        @ ''\<newline>\<newline>## Runtime Errors\<newline>\<newline>''
        @ ''R1\<newline>R2\<newline>R3\<newline>R4\<newline>R5''
        @ ''\<newline>\<newline>## Build Errors\<newline>\<newline>''
        @ ''B1\<newline>B2''
        @ ''\<newline>\<newline>## ESLint Errors\<newline>\<newline>''
        @ ''L1\<newline>L2\<newline>L3\<newline>L4\<newline>L5''
        @ ''\<newline>\<newline>## TypeScript Errors\<newline>\<newline>''
        @ ''T1\<newline>T2\<newline>T3\<newline>T4\<newline>T5\<newline>T6\<newline>T7\<newline>T8''
        @ ''\<newline>'')"
    by (simp only:)
  from h dropped show ?thesis by (rule conjI)
qed

text \<open>
  C8, as the claim states it: two calls with the same six arguments give the same text.
  The function reads the project name from \<^verbatim>\<open>package.json\<close> at each call, so the two
  texts differ when the manifest is there at one call and gone at the other.
\<close>

theorem same_arguments_other_manifest:
  "generateOutput demo_world [] [] [] [] [] [] demo_state
     \<noteq> generateOutput demo_world [] [] [] [] [] [] bare_state"
  by (simp add: generateOutput_eq demo_project_name bare_project_name template_text_def
      render_def)

text \<open>
  C8, amended. The report text is determined by the six arguments together with what
  \<^verbatim>\<open>getProjectName\<close> reads: two calls with the same arguments, in any two worlds and
  states in which \<^verbatim>\<open>getProjectName\<close> answers the same, give the same text or throw the
  same exception.
\<close>

theorem generateOutput_deterministic:
  "getProjectName w s = getProjectName w' s' \<Longrightarrow>
   generateOutput w codeFiles runtimeErrors buildErrors eslintErrors typescriptErrors summary s
     = generateOutput w' codeFiles runtimeErrors buildErrors eslintErrors typescriptErrors
         summary s'"
  by (simp add: generateOutput_def)

theorem generateOutput_deterministic_witness:
  "getProjectName demo_world demo_state
     = getProjectName offline_world (demo_state\<lparr>clipboard := Some ''kept''\<rparr>)
   \<and> generateOutput demo_world demo_codeFiles [''r''] [] [] [''t''] demo_summary demo_state
     = generateOutput offline_world demo_codeFiles [''r''] [] [] [''t''] demo_summary
         (demo_state\<lparr>clipboard := Some ''kept''\<rparr>)"
proof -
  have h: "getProjectName demo_world demo_state
     = getProjectName offline_world (demo_state\<lparr>clipboard := Some ''kept''\<rparr>)"
    by (simp add: demo_project_name offline_project_name)
  show ?thesis
    using h generateOutput_deterministic [OF h] by simp
qed

section \<open>Properties of the lint collector\<close>

lemma collectors_return:
  "\<not> isl (fst (collectBuildErrors w s))"
  "\<not> isl (fst (collectESLintErrors w s))"
  "\<not> isl (fst (collectTypescriptErrors w s))"
  by (simp_all add: collectBuildErrors_def collectESLintErrors_def collectTypescriptErrors_def
      tryCatch_def bind_def liftE_def returnP_def console_error_def runCommand_def
      parseESLintOutput_def Let_def
      split: sum.splits prod.splits option.splits)


lemma collectBuildErrors_eq:
  "collectBuildErrors w s =
     (case errorOverlay w of
        Inl e \<Rightarrow> (Inr [], s\<lparr>console := console s @ [ConsoleError ''Failed to retrieve build errors:'' e]\<rparr>)
      | Inr overlay \<Rightarrow> (Inr (buildErrorLines overlay), s))"
  by (simp add: collectBuildErrors_def tryCatch_def liftE_def bind_def console_error_def returnP_def
      split: sum.splits)

lemma collectTypescriptErrors_eq:
  "collectTypescriptErrors w s =
     (case spawn w (path_join [dirname w, ''node_modules'', ''typescript'', ''bin'', ''tsc''])
             [''--noEmit'', ''--listEmittedFiles'', ''--diagnostics''] of
        Inl e \<Rightarrow> (Inr [], s\<lparr>console := console s @ [ConsoleError ''Failed to run TypeScript:'' e]\<rparr>)
      | Inr (typescriptOutput, errorOutput) \<Rightarrow> (Inr (summarizeTypescriptErrors typescriptOutput), s))"
  by (simp add: collectTypescriptErrors_def tryCatch_def liftE_def bind_def console_error_def
      returnP_def runCommand_def split: sum.splits prod.splits)

lemma collectESLintErrors_malformed:
  assumes "spawn w ''node''
             [path_join [dirname w, ''node_modules'', ''eslint'', ''bin'', ''eslint.js''],
              ''src'', ''--ext'', ''.js,.jsx,.ts,.tsx'', ''--format'', ''json'']
             = Inr (output, errorOutput)"
      and "JSON_parse w output = Inl e"
  shows "collectESLintErrors w s
           = (Inr [], s\<lparr>console := console s @ [ConsoleError ''Failed to parse ESLint output:'' e]\<rparr>)"
  using assms
  by (simp add: collectESLintErrors_def tryCatch_def bind_def runCommand_def liftE_def
      parseESLintOutput_def)

lemma mainDeliver_Inr:
  assumes "mainDeliver w summary output s = (Inr (), s')"
  shows "clipboard s' = Some output
       \<and> console s' = console s @
           [ConsoleLog ''Output generated and copied to clipboard successfully!'',
            ConsoleLog summary,
            ConsoleLog (''- Token count: '' @ show_nat (countTokens output))]
       \<and> \<not> browser_open s'"
  using assms
  by (auto simp: mainDeliver_def bind_def writeFileSync_def copyToClipboard_def console_log_def
      closeBrowser_def split: sum.splits option.splits)

lemma mainReport_Inr:
  assumes "mainReport w excl rt be es ts s = (Inr (), s')"
  shows "\<exists>filePaths codeFiles s1 output.
           generateOutput w codeFiles rt be es ts (summaryText filePaths codeFiles rt be es ts) s1
             = Inr output
         \<and> clipboard s' = Some output
         \<and> console s' = console s @
             [ConsoleLog ''Output generated and copied to clipboard successfully!'',
              ConsoleLog (summaryText filePaths codeFiles rt be es ts),
              ConsoleLog (''- Token count: '' @ show_nat (countTokens output))]
         \<and> \<not> browser_open s'"
proof -
  from assms obtain s1 filePaths codeFiles out where
    cleared: "writeFileSync w ''output.md'' [] s = (Inr (), s1)" and
    gen: "generateOutput w codeFiles rt be es ts (summaryText filePaths codeFiles rt be es ts) s1
            = Inr out" and
    rest: "mainDeliver w (summaryText filePaths codeFiles rt be es ts) out s1 = (Inr (), s')"
    by (auto simp: mainReport_def bind_def liftE_def Let_def split: sum.splits prod.splits)
  have "console s1 = console s"
    using cleared by (auto simp: writeFileSync_def split: sum.splits)
  with mainDeliver_Inr [OF rest] gen show ?thesis by auto
qed


lemma mainCapture_malformed:
  assumes lint: "spawn w ''node''
             [path_join [dirname w, ''node_modules'', ''eslint'', ''bin'', ''eslint.js''],
              ''src'', ''--ext'', ''.js,.jsx,.ts,.tsx'', ''--format'', ''json'']
             = Inr (output, errorOutput)"
      and bad: "JSON_parse w output = Inl e"
      and run: "mainCapture w excl s = (Inr (), s')"
  shows "\<exists>errs runtimeErrors.
           capturedErrors w = Inr errs
         \<and> mapE summarizeRuntimeError errs = Inr runtimeErrors
         \<and> mainReport w excl runtimeErrors
               (case errorOverlay w of Inl _ \<Rightarrow> [] | Inr overlay \<Rightarrow> buildErrorLines overlay)
               []
               (case spawn w (path_join [dirname w, ''node_modules'', ''typescript'', ''bin'', ''tsc''])
                   [''--noEmit'', ''--listEmittedFiles'', ''--diagnostics''] of
                  Inl _ \<Rightarrow> [] | Inr (typescriptOutput, _) \<Rightarrow> summarizeTypescriptErrors typescriptOutput)
               (s\<lparr>console := console s
                  @ (case errorOverlay w of
                       Inl e' \<Rightarrow> [ConsoleError ''Failed to retrieve build errors:'' e']
                     | Inr _ \<Rightarrow> [])
                  @ [ConsoleError ''Failed to parse ESLint output:'' e]
                  @ (case spawn w (path_join [dirname w, ''node_modules'', ''typescript'', ''bin'', ''tsc''])
                   [''--noEmit'', ''--listEmittedFiles'', ''--diagnostics''] of
                       Inl e' \<Rightarrow> [ConsoleError ''Failed to run TypeScript:'' e']
                     | Inr _ \<Rightarrow> [])\<rparr>)
               = (Inr (), s')"
  using run
  by (auto simp: mainCapture_def bind_def external_def liftE_def collectBuildErrors_eq
      collectESLintErrors_malformed [OF lint bad] collectTypescriptErrors_eq
      split: sum.splits option.splits prod.splits)

lemma mainReport_console:
  assumes "mainReport w excl rt be es ts s = (Inr (), s')"
  shows "set (console s) \<subseteq> set (console s')"
  using mainReport_Inr [OF assms] by auto

text \<open>
  C4. When the linter's output is not valid JSON, \<^verbatim>\<open>parseESLintOutput\<close> logs the failure
  and returns the empty list. The run is not ended by it: with the steps before the lint
  step done, the main function goes on with the type checker and the report, handing on
  the empty lint list. And in every run that completes, the report copied to the clipboard
  is the template with \<^verbatim>\<open>No ESLint errors found.\<close> under \<^verbatim>\<open>## ESLint Errors\<close>, the build
  errors of the overlay under \<^verbatim>\<open>## Build Errors\<close> and the type checker's errors under
  \<^verbatim>\<open>## TypeScript Errors\<close>; the failure is on the console and the browser is closed.
\<close>

theorem malformed_linter_output:
  assumes lint: "spawn w ''node''
             [path_join [dirname w, ''node_modules'', ''eslint'', ''bin'', ''eslint.js''],
              ''src'', ''--ext'', ''.js,.jsx,.ts,.tsx'', ''--format'', ''json'']
             = Inr (output, errorOutput)"
      and bad: "JSON_parse w output = Inl e"
  shows "parseESLintOutput w output s0
           = (Inr [], s0\<lparr>console := console s0 @ [ConsoleError ''Failed to parse ESLint output:'' e]\<rparr>)
   \<and> (excludeFiles w s = Inr excl \<longrightarrow> puppeteer_launch w = None \<longrightarrow> browser_newPage w = None \<longrightarrow>
        page_evaluateOnNewDocument w = None \<longrightarrow> page_goto w ''http://localhost:3000'' = None \<longrightarrow>
        page_waitForSelector w ''body'' = None \<longrightarrow> capturedErrors w = Inr errs \<longrightarrow>
        mapE summarizeRuntimeError errs = Inr summaryRuntimeErrors \<longrightarrow>
        errorOverlay w = Inr overlay \<longrightarrow>
        main w s =
          bind (collectTypescriptErrors w)
            (\<lambda>typescriptErrors.
               mainReport w excl summaryRuntimeErrors (buildErrorLines overlay) [] typescriptErrors)
            (s\<lparr>browser_open := True,
               console := console s @ [ConsoleError ''Failed to parse ESLint output:'' e]\<rparr>))
   \<and> (main w s = (Inr (), s') \<longrightarrow>
        (\<exists>errs runtimeErrors buildErrors typescriptErrors filePaths codeFiles projectName.
           capturedErrors w = Inr errs
         \<and> mapE summarizeRuntimeError errs = Inr runtimeErrors
         \<and> buildErrors =
               (case errorOverlay w of Inl _ \<Rightarrow> [] | Inr overlay \<Rightarrow> buildErrorLines overlay)
         \<and> typescriptErrors =
               (case spawn w (path_join [dirname w, ''node_modules'', ''typescript'', ''bin'', ''tsc''])
                   [''--noEmit'', ''--listEmittedFiles'', ''--diagnostics''] of
                  Inl _ \<Rightarrow> []
                | Inr (typescriptOutput, _) \<Rightarrow> summarizeTypescriptErrors typescriptOutput)
         \<and> clipboard s' = Some (
        ''# Overview\<newline>''
        @ ''This file provides a summary of the codebase, including code files. Please provide the updated and\<newline>''
        @ ''fixed code for each distinct file that requires changes to fix intentionally introduced errors\<newline>''
        @ ''(runtime, build, ESLint, and TypeScript), along with concise corrections. Do not include files\<newline>''
        @ ''that do not require any changes.\<newline>''
        @ ''\<newline>## Summary\<newline>'' @ summaryText filePaths codeFiles runtimeErrors buildErrors [] typescriptErrors
        @ ''\<newline>\<newline># Project: '' @ projectName
        @ ''\<newline>\<newline>## Code Files\<newline>\<newline>'' @ join (unique codeFiles) ''\<newline>''
        @ ''\<newline>\<newline>## Runtime Errors\<newline>\<newline>''
        @ (if runtimeErrors = [] then ''No runtime errors found.''
           else join (take 5 runtimeErrors) ''\<newline>'')
        @ ''\<newline>\<newline>## Build Errors\<newline>\<newline>''
        @ (if buildErrors = [] then ''No build errors found.''
           else join (take 5 buildErrors) ''\<newline>'')
        @ ''\<newline>\<newline>## ESLint Errors\<newline>\<newline>''
        @ ''No ESLint errors found.''
        @ ''\<newline>\<newline>## TypeScript Errors\<newline>\<newline>''
        @ (if typescriptErrors = [] then ''No TypeScript errors found.''
           else join typescriptErrors ''\<newline>'')
        @ ''\<newline>'')
         \<and> ConsoleError ''Failed to parse ESLint output:'' e \<in> set (console s')
         \<and> \<not> browser_open s'))"
proof -
  have parse: "parseESLintOutput w output s0
      = (Inr [], s0\<lparr>console := console s0 @ [ConsoleError ''Failed to parse ESLint output:'' e]\<rparr>)"
    using bad by (simp add: parseESLintOutput_def)
  have continues: "main w s =
          bind (collectTypescriptErrors w)
            (\<lambda>typescriptErrors.
               mainReport w excl summaryRuntimeErrors (buildErrorLines overlay) [] typescriptErrors)
            (s\<lparr>browser_open := True,
               console := console s @ [ConsoleError ''Failed to parse ESLint output:'' e]\<rparr>)"
    if "excludeFiles w s = Inr excl" "puppeteer_launch w = None" "browser_newPage w = None"
       "page_evaluateOnNewDocument w = None" "page_goto w ''http://localhost:3000'' = None"
       "page_waitForSelector w ''body'' = None" "capturedErrors w = Inr errs"
       "mapE summarizeRuntimeError errs = Inr summaryRuntimeErrors" "errorOverlay w = Inr overlay"
    using that
    by (simp add: main_def mainCapture_def bind_def liftE_def launchBrowser_def external_def
        collectBuildErrors_eq collectESLintErrors_malformed [OF lint bad])
  have completed: "\<exists>errs runtimeErrors buildErrors typescriptErrors filePaths codeFiles projectName.
           capturedErrors w = Inr errs
         \<and> mapE summarizeRuntimeError errs = Inr runtimeErrors
         \<and> buildErrors =
               (case errorOverlay w of Inl _ \<Rightarrow> [] | Inr overlay \<Rightarrow> buildErrorLines overlay)
         \<and> typescriptErrors =
               (case spawn w (path_join [dirname w, ''node_modules'', ''typescript'', ''bin'', ''tsc''])
                   [''--noEmit'', ''--listEmittedFiles'', ''--diagnostics''] of
                  Inl _ \<Rightarrow> []
                | Inr (typescriptOutput, _) \<Rightarrow> summarizeTypescriptErrors typescriptOutput)
         \<and> clipboard s' = Some (
        ''# Overview\<newline>''
        @ ''This file provides a summary of the codebase, including code files. Please provide the updated and\<newline>''
        @ ''fixed code for each distinct file that requires changes to fix intentionally introduced errors\<newline>''
        @ ''(runtime, build, ESLint, and TypeScript), along with concise corrections. Do not include files\<newline>''
        @ ''that do not require any changes.\<newline>''
        @ ''\<newline>## Summary\<newline>'' @ summaryText filePaths codeFiles runtimeErrors buildErrors [] typescriptErrors
        @ ''\<newline>\<newline># Project: '' @ projectName
        @ ''\<newline>\<newline>## Code Files\<newline>\<newline>'' @ join (unique codeFiles) ''\<newline>''
        @ ''\<newline>\<newline>## Runtime Errors\<newline>\<newline>''
        @ (if runtimeErrors = [] then ''No runtime errors found.''
           else join (take 5 runtimeErrors) ''\<newline>'')
        @ ''\<newline>\<newline>## Build Errors\<newline>\<newline>''
        @ (if buildErrors = [] then ''No build errors found.''
           else join (take 5 buildErrors) ''\<newline>'')
        @ ''\<newline>\<newline>## ESLint Errors\<newline>\<newline>''
        @ ''No ESLint errors found.''
        @ ''\<newline>\<newline>## TypeScript Errors\<newline>\<newline>''
        @ (if typescriptErrors = [] then ''No TypeScript errors found.''
           else join typescriptErrors ''\<newline>'')
        @ ''\<newline>'')
         \<and> ConsoleError ''Failed to parse ESLint output:'' e \<in> set (console s')
         \<and> \<not> browser_open s'"
    if run: "main w s = (Inr (), s')"
  proof -
    from run obtain excl' s1 where capture: "mainCapture w excl' s1 = (Inr (), s')"
      by (auto simp: main_def bind_def liftE_def launchBrowser_def split: sum.splits option.splits)
    let ?be = "case errorOverlay w of Inl _ \<Rightarrow> [] | Inr overlay \<Rightarrow> buildErrorLines overlay"
    let ?ts = "case spawn w (path_join [dirname w, ''node_modules'', ''typescript'', ''bin'', ''tsc''])
                   [''--noEmit'', ''--listEmittedFiles'', ''--diagnostics''] of
                  Inl _ \<Rightarrow> []
                | Inr (typescriptOutput, _) \<Rightarrow> summarizeTypescriptErrors typescriptOutput"
    let ?s2 = "s1\<lparr>console := console s1
                  @ (case errorOverlay w of
                       Inl e' \<Rightarrow> [ConsoleError ''Failed to retrieve build errors:'' e']
                     | Inr _ \<Rightarrow> [])
                  @ [ConsoleError ''Failed to parse ESLint output:'' e]
                  @ (case spawn w (path_join [dirname w, ''node_modules'', ''typescript'', ''bin'', ''tsc''])
                   [''--noEmit'', ''--listEmittedFiles'', ''--diagnostics''] of
                       Inl e' \<Rightarrow> [ConsoleError ''Failed to run TypeScript:'' e']
                     | Inr _ \<Rightarrow> [])\<rparr>"
    from mainCapture_malformed [OF lint bad capture] obtain errs' rt where
      errs: "capturedErrors w = Inr errs'" and
      rt: "mapE summarizeRuntimeError errs' = Inr rt" and
      report: "mainReport w excl' rt ?be [] ?ts ?s2 = (Inr (), s')"
      by blast
    have logged: "ConsoleError ''Failed to parse ESLint output:'' e \<in> set (console ?s2)"
      by simp
    from mainReport_Inr [OF report] obtain filePaths codeFiles s3 out where
      gen: "generateOutput w codeFiles rt ?be [] ?ts (summaryText filePaths codeFiles rt ?be [] ?ts) s3
              = Inr out" and
      clip: "clipboard s' = Some out" and
      closed: "\<not> browser_open s'"
      by blast
    from generateOutput_text [OF gen] obtain projectName where
      shape0: "out =
        ''# Overview\<newline>''
        @ ''This file provides a summary of the codebase, including code files. Please provide the updated and\<newline>''
        @ ''fixed code for each distinct file that requires changes to fix intentionally introduced errors\<newline>''
        @ ''(runtime, build, ESLint, and TypeScript), along with concise corrections. Do not include files\<newline>''
        @ ''that do not require any changes.\<newline>''
        @ ''\<newline>## Summary\<newline>'' @ summaryText filePaths codeFiles rt ?be [] ?ts
        @ ''\<newline>\<newline># Project: '' @ projectName
        @ ''\<newline>\<newline>## Code Files\<newline>\<newline>'' @ join (unique codeFiles) ''\<newline>''
        @ ''\<newline>\<newline>## Runtime Errors\<newline>\<newline>''
        @ (if rt = [] then ''No runtime errors found.''
           else join (take 5 rt) ''\<newline>'')
        @ ''\<newline>\<newline>## Build Errors\<newline>\<newline>''
        @ (if ?be = [] then ''No build errors found.''
           else join (take 5 ?be) ''\<newline>'')
        @ ''\<newline>\<newline>## ESLint Errors\<newline>\<newline>''
        @ (if ([]::string list) = [] then ''No ESLint errors found.''
           else join (take 5 []) ''\<newline>'')
        @ ''\<newline>\<newline>## TypeScript Errors\<newline>\<newline>''
        @ (if ?ts = [] then ''No TypeScript errors found.''
           else join (?ts) ''\<newline>'')
        @ ''\<newline>''"
      ..
    have sentinel: "(if ([]::string list) = [] then ''No ESLint errors found.''
           else join (take 5 []) ''\<newline>'') = ''No ESLint errors found.''"
      by simp
    have shape: "clipboard s' = Some (
        ''# Overview\<newline>''
        @ ''This file provides a summary of the codebase, including code files. Please provide the updated and\<newline>''
        @ ''fixed code for each distinct file that requires changes to fix intentionally introduced errors\<newline>''
        @ ''(runtime, build, ESLint, and TypeScript), along with concise corrections. Do not include files\<newline>''
        @ ''that do not require any changes.\<newline>''
        @ ''\<newline>## Summary\<newline>'' @ summaryText filePaths codeFiles rt ?be [] ?ts
        @ ''\<newline>\<newline># Project: '' @ projectName
        @ ''\<newline>\<newline>## Code Files\<newline>\<newline>'' @ join (unique codeFiles) ''\<newline>''
        @ ''\<newline>\<newline>## Runtime Errors\<newline>\<newline>''
        @ (if rt = [] then ''No runtime errors found.''
           else join (take 5 rt) ''\<newline>'')
        @ ''\<newline>\<newline>## Build Errors\<newline>\<newline>''
        @ (if ?be = [] then ''No build errors found.''
           else join (take 5 ?be) ''\<newline>'')
        @ ''\<newline>\<newline>## ESLint Errors\<newline>\<newline>''
        @ ''No ESLint errors found.''
        @ ''\<newline>\<newline>## TypeScript Errors\<newline>\<newline>''
        @ (if ?ts = [] then ''No TypeScript errors found.''
           else join (?ts) ''\<newline>'')
        @ ''\<newline>'')"
      using clip shape0 by (simp only: sentinel)
    have kept: "ConsoleError ''Failed to parse ESLint output:'' e \<in> set (console s')"
      using logged mainReport_console [OF report] by blast
    show ?thesis
      by (intro exI conjI; (rule errs rt shape kept closed | rule refl))
  qed
  from parse continues completed show ?thesis by blast
qed

lemma demo_run: "main demo_world demo_state = (Inr (), demo_final)"
  by code_simp

lemma overlay_run: "main overlay_world demo_state = (Inr (), overlay_final)"
  by code_simp

theorem malformed_linter_output_witness:
  \<open>spawn overlay_world ''node''
       [path_join [dirname overlay_world, ''node_modules'', ''eslint'', ''bin'', ''eslint.js''],
        ''src'', ''--ext'', ''.js,.jsx,.ts,.tsx'', ''--format'', ''json'']
       = Inr (''Oops! Something went wrong'', [])
   \<and> JSON_parse overlay_world ''Oops! Something went wrong'' = Inl SyntaxError
   \<and> parseESLintOutput overlay_world ''Oops! Something went wrong'' demo_state
       = (Inr [], demo_state\<lparr>console :=
            [ConsoleError ''Failed to parse ESLint output:'' SyntaxError]\<rparr>)
   \<and> main overlay_world demo_state =
       bind (collectTypescriptErrors overlay_world)
         (\<lambda>typescriptErrors.
            mainReport overlay_world (''b.png'' # builtinExcludes)
              [''- ReferenceError: y is not defined\<newline>      at App (App.js:3:1)'',
            ''- Script error.\<newline>  undefined'']
              [''Failed to compile.'', [], ''./src/App.js'',
            ''  Line 3:  y is not defined  no-undef'']
              [] typescriptErrors)
         (demo_state\<lparr>browser_open := True,
            console := [ConsoleError ''Failed to parse ESLint output:'' SyntaxError]\<rparr>)
   \<and> main overlay_world demo_state = (Inr (), overlay_final)
   \<and> clipboard overlay_final = Some (
        ''# Overview\<newline>''
        @ ''This file provides a summary of the codebase, including code files. Please provide the updated and\<newline>''
        @ ''fixed code for each distinct file that requires changes to fix intentionally introduced errors\<newline>''
        @ ''(runtime, build, ESLint, and TypeScript), along with concise corrections. Do not include files\<newline>''
        @ ''that do not require any changes.\<newline>''
        @ ''\<newline>## Summary\<newline>'' @ ''- Total files: 4\<newline>- Lines of code: 10\<newline>- Runtime errors: 2\<newline>- Build errors: 4\<newline>- ESLint errors: 0\<newline>- TypeScript errors: 1''
        @ ''\<newline>\<newline># Project: '' @ ''demo''
        @ ''\<newline>\<newline>## Code Files\<newline>\<newline>'' @ 
          ''[a.js]\<newline>const x=1;\<newline>...\<newline>\<newline>\<newline>[package.json]\<newline>{"name":"demo"}\<newline>...\<newline>\<newline>[src/App.js]\<newline>export default 1;\<newline>...\<newline>''
        @ ''\<newline>\<newline>## Runtime Errors\<newline>\<newline>''
        @ ''- ReferenceError: y is not defined\<newline>      at App (App.js:3:1)\<newline>- Script error.\<newline>  undefined''
        @ ''\<newline>\<newline>## Build Errors\<newline>\<newline>''
        @ ''Failed to compile.\<newline>\<newline>./src/App.js\<newline>  Line 3:  y is not defined  no-undef''
        @ ''\<newline>\<newline>## ESLint Errors\<newline>\<newline>''
        @ ''No ESLint errors found.''
        @ ''\<newline>\<newline>## TypeScript Errors\<newline>\<newline>''
        @ ''src/App.ts(1,1): error TS2304: Cannot find name x.''
        @ ''\<newline>'')
   \<and> ConsoleError ''Failed to parse ESLint output:'' SyntaxError \<in> set (console overlay_final)
   \<and> \<not> browser_open overlay_final\<close>
proof -
  have lint: "spawn overlay_world ''node''
       [path_join [dirname overlay_world, ''node_modules'', ''eslint'', ''bin'', ''eslint.js''],
        ''src'', ''--ext'', ''.js,.jsx,.ts,.tsx'', ''--format'', ''json'']
       = Inr (''Oops! Something went wrong'', [])"
    by (simp add: overlay_world_def demo_world_def)
  have bad: "JSON_parse overlay_world ''Oops! Something went wrong'' = Inl SyntaxError"
    by (simp add: overlay_world_def demo_world_def parse_table_def)
  note inst = malformed_linter_output [OF lint bad, of demo_state demo_state
      "''b.png'' # builtinExcludes"
      "[''ReferenceError: y is not defined\<newline>    at App (App.js:3:1)'', ''Script error.'']"
      "[''- ReferenceError: y is not defined\<newline>      at App (App.js:3:1)'',
            ''- Script error.\<newline>  undefined'']"
      "Some ''Failed to compile.\<newline>\<newline>./src/App.js\<newline>  Line 3:  y is not defined  no-undef\<newline>''"
      overlay_final]
  have quiet: "console demo_state = []"
    by (simp add: demo_state_def)
  have parse: "parseESLintOutput overlay_world ''Oops! Something went wrong'' demo_state
       = (Inr [], demo_state\<lparr>console :=
            [ConsoleError ''Failed to parse ESLint output:'' SyntaxError]\<rparr>)"
    using inst quiet by simp
  have loaded: "excludeFiles overlay_world demo_state = Inr (''b.png'' # builtinExcludes)"
    by code_simp
  have steps: "puppeteer_launch overlay_world = None" "browser_newPage overlay_world = None"
    "page_evaluateOnNewDocument overlay_world = None"
    "page_goto overlay_world ''http://localhost:3000'' = None"
    "page_waitForSelector overlay_world ''body'' = None"
    "capturedErrors overlay_world
       = Inr [''ReferenceError: y is not defined\<newline>    at App (App.js:3:1)'', ''Script error.'']"
    "errorOverlay overlay_world
       = Inr (Some ''Failed to compile.\<newline>\<newline>./src/App.js\<newline>  Line 3:  y is not defined  no-undef\<newline>'')"
    by (simp_all add: overlay_world_def demo_world_def)
  have summarized: "mapE summarizeRuntimeError
       [''ReferenceError: y is not defined\<newline>    at App (App.js:3:1)'', ''Script error.'']
       = Inr [''- ReferenceError: y is not defined\<newline>      at App (App.js:3:1)'',
            ''- Script error.\<newline>  undefined'']"
    by code_simp
  have overlay: "buildErrorLines
       (Some ''Failed to compile.\<newline>\<newline>./src/App.js\<newline>  Line 3:  y is not defined  no-undef\<newline>'')
       = [''Failed to compile.'', [], ''./src/App.js'',
            ''  Line 3:  y is not defined  no-undef'']"
    by code_simp
  have continues: "main overlay_world demo_state =
       bind (collectTypescriptErrors overlay_world)
         (\<lambda>typescriptErrors.
            mainReport overlay_world (''b.png'' # builtinExcludes)
              [''- ReferenceError: y is not defined\<newline>      at App (App.js:3:1)'',
            ''- Script error.\<newline>  undefined'']
              [''Failed to compile.'', [], ''./src/App.js'',
            ''  Line 3:  y is not defined  no-undef'']
              [] typescriptErrors)
         (demo_state\<lparr>browser_open := True,
            console := [ConsoleError ''Failed to parse ESLint output:'' SyntaxError]\<rparr>)"
    using inst loaded steps summarized overlay quiet by simp
  have report: \<open>clipboard overlay_final = Some (
        ''# Overview\<newline>''
        @ ''This file provides a summary of the codebase, including code files. Please provide the updated and\<newline>''
        @ ''fixed code for each distinct file that requires changes to fix intentionally introduced errors\<newline>''
        @ ''(runtime, build, ESLint, and TypeScript), along with concise corrections. Do not include files\<newline>''
        @ ''that do not require any changes.\<newline>''
        @ ''\<newline>## Summary\<newline>'' @ ''- Total files: 4\<newline>- Lines of code: 10\<newline>- Runtime errors: 2\<newline>- Build errors: 4\<newline>- ESLint errors: 0\<newline>- TypeScript errors: 1''
        @ ''\<newline>\<newline># Project: '' @ ''demo''
        @ ''\<newline>\<newline>## Code Files\<newline>\<newline>'' @ 
          ''[a.js]\<newline>const x=1;\<newline>...\<newline>\<newline>\<newline>[package.json]\<newline>{"name":"demo"}\<newline>...\<newline>\<newline>[src/App.js]\<newline>export default 1;\<newline>...\<newline>''
        @ ''\<newline>\<newline>## Runtime Errors\<newline>\<newline>''
        @ ''- ReferenceError: y is not defined\<newline>      at App (App.js:3:1)\<newline>- Script error.\<newline>  undefined''
        @ ''\<newline>\<newline>## Build Errors\<newline>\<newline>''
        @ ''Failed to compile.\<newline>\<newline>./src/App.js\<newline>  Line 3:  y is not defined  no-undef''
        @ ''\<newline>\<newline>## ESLint Errors\<newline>\<newline>''
        @ ''No ESLint errors found.''
        @ ''\<newline>\<newline>## TypeScript Errors\<newline>\<newline>''
        @ ''src/App.ts(1,1): error TS2304: Cannot find name x.''
        @ ''\<newline>'')\<close>
    by (simp only: overlay_final_def overlay_report_def state.select_convs render_text)
  have logged: "ConsoleError ''Failed to parse ESLint output:'' SyntaxError
      \<in> set (console overlay_final)"
    using inst overlay_run by blast
  have closed: "\<not> browser_open overlay_final"
    using inst overlay_run by blast
  show ?thesis
    by (intro conjI; (rule lint bad parse continues overlay_run report logged closed))
qed

section \<open>Properties of the orchestrator\<close>

subsection \<open>Which steps change the browser session\<close>

lemma bind_keeps:
  assumes "\<And>s. browser_open (snd (p s)) = browser_open s"
      and "\<And>x s. browser_open (snd (k x s)) = browser_open s"
  shows "browser_open (snd (bind p k s)) = browser_open s"
proof (cases "p s")
  case (Pair r s')
  then have "browser_open s' = browser_open s" using assms(1) [of s] by simp
  then show ?thesis using Pair assms(2) by (cases r) (simp_all add: bind_def)
qed

lemma tryCatch_keeps:
  assumes "\<And>s. browser_open (snd (p s)) = browser_open s"
      and "\<And>e s. browser_open (snd (h e s)) = browser_open s"
  shows "browser_open (snd (tryCatch p h s)) = browser_open s"
proof (cases "p s")
  case (Pair r s')
  then have "browser_open s' = browser_open s" using assms(1) [of s] by simp
  then show ?thesis using Pair assms(2) by (cases r) (simp_all add: tryCatch_def)
qed

lemma steps_keep:
  "browser_open (snd (returnP x s)) = browser_open s"
  "browser_open (snd (liftE f s)) = browser_open s"
  "browser_open (snd (external answer s)) = browser_open s"
  "browser_open (snd (console_error text e s)) = browser_open s"
  "browser_open (snd (console_log text s)) = browser_open s"
  "browser_open (snd (writeFileSync w p data s)) = browser_open s"
  "browser_open (snd (copyToClipboard w data s)) = browser_open s"
  "browser_open (snd (runCommand w command args s)) = browser_open s"
  "browser_open (snd (parseESLintOutput w output s)) = browser_open s"
  by (simp_all add: returnP_def liftE_def external_def console_error_def console_log_def
      writeFileSync_def copyToClipboard_def runCommand_def parseESLintOutput_def
      split: option.splits sum.splits prod.splits)

lemma collectors_keep:
  "browser_open (snd (collectBuildErrors w s)) = browser_open s"
  "browser_open (snd (collectESLintErrors w s)) = browser_open s"
  "browser_open (snd (collectTypescriptErrors w s)) = browser_open s"
  unfolding collectBuildErrors_def collectESLintErrors_def collectTypescriptErrors_def Let_def
    case_prod_beta
  by (intro tryCatch_keeps bind_keeps steps_keep)+

lemma bind_releases:
  assumes "\<And>s. browser_open (snd (p s)) = browser_open s"
      and "\<And>x s. browser_open (snd (k x s)) = (browser_open s \<and> isl (fst (k x s)))"
  shows "browser_open (snd (bind p k s)) = (browser_open s \<and> isl (fst (bind p k s)))"
proof (cases "p s")
  case (Pair r s')
  then have "browser_open s' = browser_open s" using assms(1) [of s] by simp
  then show ?thesis using Pair assms(2) by (cases r) (simp_all add: bind_def)
qed

lemma closeBrowser_releases:
  "browser_open (snd (closeBrowser w s)) = (browser_open s \<and> isl (fst (closeBrowser w s)))"
  by (simp add: closeBrowser_def split: option.splits)

lemma mainDeliver_releases:
  "browser_open (snd (mainDeliver w summary output s))
     = (browser_open s \<and> isl (fst (mainDeliver w summary output s)))"
  unfolding mainDeliver_def
  by (intro bind_releases closeBrowser_releases steps_keep)

lemma mainReport_releases:
  "browser_open (snd (mainReport w excl rt be es ts s))
     = (browser_open s \<and> isl (fst (mainReport w excl rt be es ts s)))"
  unfolding mainReport_def Let_def
  by (intro bind_releases mainDeliver_releases steps_keep)

lemma mainCapture_releases:
  "browser_open (snd (mainCapture w excl s))
     = (browser_open s \<and> isl (fst (mainCapture w excl s)))"
  unfolding mainCapture_def
  by (intro bind_releases mainReport_releases steps_keep collectors_keep)


lemma offline_run:
  "main offline_world demo_state
     = (Inl (Failure ''net::ERR_CONNECTION_REFUSED''), demo_state\<lparr>browser_open := True\<rparr>)"
  by code_simp

text \<open>
  C6, as the claim states it: the browser is closed on every exit path. With the
  application not served, \<^verbatim>\<open>page.goto\<close> rejects, the main function ends there, and the
  browser it launched is still open.
\<close>

theorem session_left_open:
  "\<not> browser_open demo_state
   \<and> fst (main offline_world demo_state) = Inl (Failure ''net::ERR_CONNECTION_REFUSED'')
   \<and> browser_open (snd (main offline_world demo_state))"
  by (simp add: offline_run) (simp add: demo_state_def)

text \<open>
  C6, amended. \<^verbatim>\<open>browser.close()\<close> is the last statement of the main function: a run that
  completes has closed the browser, and the three collectors with a \<^verbatim>\<open>try\<close> block of their
  own (build overlay, ESLint, TypeScript) never end the run. A run that starts without a
  browser ends with one open exactly when the launch succeeded and a later statement threw.
\<close>

theorem session_closed_iff_completed:
  "(fst (main w s) = Inr () \<longrightarrow> \<not> browser_open (snd (main w s)))
   \<and> (\<not> browser_open s \<longrightarrow>
        browser_open (snd (main w s))
          = (\<not> isl (excludeFiles w s) \<and> puppeteer_launch w = None \<and> isl (fst (main w s))))
   \<and> \<not> isl (fst (collectBuildErrors w s1))
   \<and> \<not> isl (fst (collectESLintErrors w s2))
   \<and> \<not> isl (fst (collectTypescriptErrors w s3))"
proof -
  have "(fst (main w s) = Inr () \<longrightarrow> \<not> browser_open (snd (main w s)))
   \<and> (\<not> browser_open s \<longrightarrow>
        browser_open (snd (main w s))
          = (\<not> isl (excludeFiles w s) \<and> puppeteer_launch w = None \<and> isl (fst (main w s))))"
    using mainCapture_releases [of w _ "s\<lparr>browser_open := True\<rparr>"]
    by (auto simp: main_def bind_def liftE_def launchBrowser_def split: sum.splits option.splits)
  then show ?thesis
    using collectors_return by simp
qed

theorem session_closed_iff_completed_witness:
  "fst (main demo_world demo_state) = Inr ()
   \<and> \<not> browser_open (snd (main demo_world demo_state))
   \<and> \<not> browser_open demo_state
   \<and> \<not> isl (excludeFiles offline_world demo_state)
   \<and> puppeteer_launch offline_world = None
   \<and> isl (fst (main offline_world demo_state))
   \<and> browser_open (snd (main offline_world demo_state))"
proof -
  have closed: "\<not> browser_open demo_state"
    by (simp add: demo_state_def)
  have completed: "fst (main demo_world demo_state) = Inr ()"
    by (simp add: demo_run)
  have launched: "puppeteer_launch offline_world = None"
    by (simp add: offline_world_def demo_world_def)
  have loaded: "\<not> isl (excludeFiles offline_world demo_state)"
    by code_simp
  have threw: "isl (fst (main offline_world demo_state))"
    by (simp add: offline_run)
  show ?thesis
    using session_closed_iff_completed [of demo_world demo_state]
          session_closed_iff_completed [of offline_world demo_state]
          closed completed launched loaded threw
    by simp
qed

subsection \<open>Blank files\<close>

lemma demo_file_paths:
  "getFilePaths demo_world (''b.png'' # builtinExcludes) ''/proj'' demo_state
     = Inr [''/proj/a.js'', ''/proj/blank.js'', ''/proj/package.json'', ''/proj/src/App.js'']"
  by code_simp

lemma demo_code_files:
  "mapE (getFileContentWithStructure demo_world demo_state)
     [''/proj/a.js'', ''/proj/blank.js'', ''/proj/package.json'', ''/proj/src/App.js'']
     = Inr demo_codeFiles"
  by code_simp

text \<open>
  C5, on the example project. The renderer returns the empty string for \<^verbatim>\<open>blank.js\<close>;
  \<^verbatim>\<open>filePaths.map\<close> keeps it as the second element of \<^verbatim>\<open>codeFiles\<close>; joined with the
  blocks, it puts one more line break into the Code Files section than the blocks alone,
  and the report of the run has that section.
\<close>

theorem blank_file_kept_in_code_files:
  "getFilePaths demo_world (''b.png'' # builtinExcludes) ''/proj'' demo_state
     = Inr [''/proj/a.js'', ''/proj/blank.js'', ''/proj/package.json'', ''/proj/src/App.js'']
   \<and> getFileContentWithStructure demo_world demo_state ''/proj/blank.js'' = Inr []
   \<and> mapE (getFileContentWithStructure demo_world demo_state)
       [''/proj/a.js'', ''/proj/blank.js'', ''/proj/package.json'', ''/proj/src/App.js'']
       = Inr demo_codeFiles
   \<and> demo_codeFiles ! 1 = []
   \<and> generateOutput demo_world demo_codeFiles [] [] [] [] demo_summary demo_state
       \<noteq> generateOutput demo_world (filter (\<lambda>block. block \<noteq> []) demo_codeFiles)
            [] [] [] [] demo_summary demo_state
   \<and> clipboard (snd (main demo_world demo_state)) = Some (render demo_report)
   \<and> code_section demo_report = join demo_codeFiles ''\<newline>''"
proof -
  have blank: "getFileContentWithStructure demo_world demo_state ''/proj/blank.js'' = Inr []"
    by code_simp
  have second: "demo_codeFiles ! 1 = []"
    by (simp add: demo_codeFiles_def)
  have differ: "generateOutput demo_world demo_codeFiles [] [] [] [] demo_summary demo_state
       \<noteq> generateOutput demo_world (filter (\<lambda>block. block \<noteq> []) demo_codeFiles)
            [] [] [] [] demo_summary demo_state"
    by (simp add: generateOutput_eq demo_project_name template_text_def render_def
        demo_codeFiles_def unique_def)
  have report: "clipboard (snd (main demo_world demo_state)) = Some (render demo_report)"
    by (simp add: demo_run demo_final_def)
  have code: "code_section demo_report = join demo_codeFiles ''\<newline>''"
    by (simp add: demo_report_def demo_codeFiles_def)
  from demo_file_paths blank demo_code_files second differ report code show ?thesis by simp
qed

end
